theory Spec2Isabelle
  imports Main "HOL-Library.Sublist" "HOL-Library.Monad_Syntax"
begin

section \<open>Strings\<close>

text \<open>
  A JavaScript string is modelled as a \<^typ>\<open>string\<close>: the list of the bytes of its UTF-8
  encoding. Every pattern the script matches (\<open># \<close>, \<open>-\<close>) and every literal it emits is
  ASCII, so matching a prefix or removing a character on the bytes is matching or removing
  it on the string.
\<close>

definition replaceAtStart :: "string \<Rightarrow> string \<Rightarrow> string \<Rightarrow> string" where
  \<comment> \<open>\<open>s.replace(/^pat/, rep)\<close> for a literal \<open>pat\<close> and a \<open>rep\<close> without \<open>$\<close>: the regular
      expression has no \<open>m\<close> or \<open>g\<close> flag, so it matches at offset 0 only, at most once; a
      string that does not match is returned as it is.\<close>
  "replaceAtStart pat rep s = (if prefix pat s then rep @ drop (length pat) s else s)"

section \<open>The block tree of notion-to-md\<close>

text \<open>
  \<open>n2m.pageToMarkdown\<close> returns a list of blocks \<open>{type, blockId, parent, children}\<close>, where
  \<open>parent\<close> is the block's own line of markdown. \<open>shiftHeadings\<close> tests \<open>block.children\<close>
  before it reads its length, so a block may have no \<open>children\<close> field: \<open>None\<close>. The
  conversion builds the tree anew for every record, one object for each block, so a
  rewrite of a block in place is a rewrite of one position of the tree.
\<close>

datatype mdblock =
  MdBlock (btype: string) (blockId: string) (parent: string) (children: "mdblock list option")

text \<open>
  \<open>shiftHeadings\<close> (lines 36 to 52) rewrites the blocks in place and returns nothing; the
  model returns the rewritten list. \<open>shiftHeadings\<close> is the \<open>for\<close> loop, \<open>shiftBlock\<close> its body:
  the \<open>if\<close> chain on \<open>block.type\<close>, then the recursive call, made when \<open>block.children\<close>
  is there and not empty.
\<close>

fun shiftHeadings :: "mdblock list \<Rightarrow> mdblock list"
  and shiftBlock :: "mdblock \<Rightarrow> mdblock" where
  "shiftHeadings [] = []"
| "shiftHeadings (b # bs) = shiftBlock b # shiftHeadings bs"
| "shiftBlock (MdBlock t i p cs) =
     MdBlock t i
       (if t = ''heading_1'' then replaceAtStart ''# '' ''## '' p
        else if t = ''heading_2'' then replaceAtStart ''## '' ''### '' p
        else if t = ''heading_3'' then replaceAtStart ''### '' ''#### '' p
        else p)
       (case cs of
          None \<Rightarrow> None
        | Some [] \<Rightarrow> Some []
        | Some (c # cs') \<Rightarrow> Some (shiftHeadings (c # cs')))"

text \<open>
  A block of the tree is named by its path: the index of a top-level block, then the index
  of one of its children, and so on. \<open>blockAt path bs\<close> is the block at \<open>path\<close>, or \<open>None\<close>
  when the tree has no block there.
\<close>

fun blockAt :: "nat list \<Rightarrow> mdblock list \<Rightarrow> mdblock option" where
  "blockAt [] bs = None"
| "blockAt [i] bs = (if i < length bs then Some (bs ! i) else None)"
| "blockAt (i # j # js) bs =
     (if i < length bs
      then (case children (bs ! i) of None \<Rightarrow> None | Some cs \<Rightarrow> blockAt (j # js) cs)
      else None)"

text \<open>The tree with every \<open>parent\<close> text blanked: all that \<open>shiftHeadings\<close> may not touch.\<close>

fun eraseParents :: "mdblock list \<Rightarrow> mdblock list"
  and eraseParent :: "mdblock \<Rightarrow> mdblock" where
  "eraseParents [] = []"
| "eraseParents (b # bs) = eraseParent b # eraseParents bs"
| "eraseParent (MdBlock t i p cs) =
     MdBlock t i [] (case cs of None \<Rightarrow> None | Some cs' \<Rightarrow> Some (eraseParents cs'))"

definition headingTypes :: "string set" where
  "headingTypes = {''heading_1'', ''heading_2'', ''heading_3''}"

section \<open>Errors and JavaScript values\<close>

text \<open>
  A thrown value. \<open>TypeError k\<close> is the engine's error on reading the property \<open>k\<close> of
  \<open>undefined\<close>; \<open>Error msg\<close> is \<open>new Error(msg)\<close>; \<open>Rejected r\<close> is whatever a call to the
  Notion client or to notion-to-md rejects with.
\<close>

datatype js_error = TypeError string | Error string | Rejected string

definition truthy :: "string option \<Rightarrow> bool" where
  \<comment> \<open>A value that is \<open>undefined\<close> (\<open>None\<close>) or a string: falsy when \<open>undefined\<close> or empty.\<close>
  "truthy v = (case v of None \<Rightarrow> False | Some s \<Rightarrow> s \<noteq> [])"

definition orElse :: "string option \<Rightarrow> string \<Rightarrow> string" where
  \<comment> \<open>\<open>v || d\<close>\<close>
  "orElse v d = (case v of None \<Rightarrow> d | Some s \<Rightarrow> if s = [] then d else s)"

definition toStr :: "string option \<Rightarrow> string" where
  \<comment> \<open>\<open>ToString\<close> of a value that is \<open>undefined\<close> or a string.\<close>
  "toStr v = (case v of None \<Rightarrow> ''undefined'' | Some s \<Rightarrow> s)"

definition first :: "'a list \<Rightarrow> 'a option" where
  \<comment> \<open>\<open>xs[0]\<close>: \<open>undefined\<close> on the empty array.\<close>
  "first xs = (case xs of [] \<Rightarrow> None | x # _ \<Rightarrow> Some x)"

fun join :: "string \<Rightarrow> string option list \<Rightarrow> string" where
  \<comment> \<open>\<open>xs.join(sep)\<close>; an \<open>undefined\<close> element is joined as the empty string.\<close>
  "join sep [] = []"
| "join sep [x] = (case x of None \<Rightarrow> [] | Some s \<Rightarrow> s)"
| "join sep (x # y # ys) = (case x of None \<Rightarrow> [] | Some s \<Rightarrow> s) @ sep @ join sep (y # ys)"

fun decimal :: "nat \<Rightarrow> string" where
  \<comment> \<open>A length in a template literal: its decimal digits.\<close>
  "decimal n =
     (if n < 10 then [''0123456789'' ! n]
      else decimal (n div 10) @ [''0123456789'' ! (n mod 10)])"

subsection \<open>encodeURIComponent\<close>

text \<open>
  The built-in \<open>encodeURIComponent\<close> keeps the letters, the digits and
  \<open>- _ . ! ~ * ' ( )\<close>, and writes every other character as \<open>%XX\<close> for each byte of its
  UTF-8 encoding, in upper-case hexadecimal: on the bytes, every byte that is not one of
  the kept characters becomes \<open>%XX\<close>. (The built-in throws \<open>URIError\<close> on an unpaired
  surrogate; such a string has no UTF-8 encoding and is no value of \<^typ>\<open>string\<close>.)
\<close>

definition uriUnreserved :: "char \<Rightarrow> bool" where
  "uriUnreserved c =
     (c \<in> set (''ABCDEFGHIJKLMNOPQRSTUVWXYZabcdefghijklmnopqrstuvwxyz0123456789-_.!~*()''
               @ [CHR 0x27]))"

definition hexDigit :: "nat \<Rightarrow> char" where
  "hexDigit n = ''0123456789ABCDEF'' ! n"

definition percentEncode :: "char \<Rightarrow> string" where
  "percentEncode c =
     (if uriUnreserved c then [c]
      else [CHR ''%'', hexDigit (of_char c div 16), hexDigit (of_char c mod 16)])"

definition encodeURIComponent :: "string \<Rightarrow> string" where
  "encodeURIComponent s = concat (map percentEncode s)"

section \<open>The image transformer\<close>

text \<open>
  The Notion block the transformer is given: its \<open>id\<close> and its \<open>image\<close> payload
  \<open>{type, file: {url}, external: {url}}\<close>. Every object the transformer reads a property
  of may be missing (\<open>None\<close>), and so may the \<open>url\<close>.
\<close>

record hosted =
  url :: "string option"

record image_payload =
  image_type :: "string option"
  image_file :: "hosted option"
  image_external :: "hosted option"

record image_block =
  block_id :: string
  block_image :: "image_payload option"

text \<open>
  The custom transformer of lines 16 to 28. Reading a property of \<open>undefined\<close> throws
  (\<open>image.type\<close>, \<open>image.file.url\<close>, \<open>image.external.url\<close>); a \<open>url\<close> that is \<open>undefined\<close>
  does not: \<open>encodeURIComponent\<close> converts it to the string \<open>undefined\<close>.
\<close>

definition imageUrl :: "image_payload \<Rightarrow> js_error + string option" where
  \<comment> \<open>\<open>image.type === "file" ? image.file.url : image.external.url\<close>\<close>
  "imageUrl img =
     (if image_type img = Some ''file''
      then (case image_file img of None \<Rightarrow> Inl (TypeError ''url'') | Some f \<Rightarrow> Inr (url f))
      else (case image_external img of None \<Rightarrow> Inl (TypeError ''url'') | Some e \<Rightarrow> Inr (url e)))"

definition imageTransformer :: "image_block \<Rightarrow> js_error + string" where
  "imageTransformer block =
     (case block_image block of
        None \<Rightarrow> Inl (TypeError ''type'')
      | Some img \<Rightarrow>
          (case imageUrl img of
             Inl err \<Rightarrow> Inl err
           | Inr u \<Rightarrow>
               (let blockId = block_id block;
                    encodedUrl = encodeURIComponent (toStr u);
                    proxyUrl = ''https://www.notion.so/image/'' @ encodedUrl
                               @ ''?table=block&id='' @ blockId @ ''&cache=v2''
                in Inr (''![image]('' @ proxyUrl @ '')''))))"

section \<open>Records of the database and their front matter\<close>

text \<open>
  A page of the query's result: its \<open>id\<close> and its \<open>properties\<close>. The script reads every
  property through optional chaining, so every object on the way may be missing.
\<close>

record rich_text_item =
  plain_text :: "string option"

record title_property =
  title_runs :: "rich_text_item list option"

record rich_text_property =
  rich_text :: "rich_text_item list option"

record select_option =
  name :: "string option"

record select_property =
  select :: "select_option option"

record multi_select_property =
  multi_select :: "select_option list option"

record date_range =
  start :: "string option"

record date_property =
  date_range :: "date_range option"

record page_properties =
  prop_title :: "title_property option"
  prop_page_id :: "rich_text_property option"
  prop_description :: "rich_text_property option"
  prop_thumbnail_url :: "rich_text_property option"
  prop_category :: "select_property option"
  prop_tags :: "multi_select_property option"
  prop_date :: "date_property option"

record page =
  page_ident :: string
  properties :: "page_properties option"

text \<open>
  Lines 88 to 118. Each \<open>?.\<close> is a \<open>\<bind>\<close> on \<open>option\<close>; \<open>today\<close> is what
  \<open>moment().format("YYYY-MM-DD")\<close> returns while the record is processed.
\<close>

definition title :: "page \<Rightarrow> string" where
  "title p =
     orElse (properties p \<bind> prop_title \<bind> title_runs \<bind> first \<bind> plain_text) ''Untitled''"

definition pageId :: "page \<Rightarrow> string" where
  "pageId p =
     orElse (properties p \<bind> prop_page_id \<bind> rich_text \<bind> first \<bind> plain_text)
       (filter (\<lambda>c. c \<noteq> CHR ''-'') (page_ident p))"

definition description :: "page \<Rightarrow> string" where
  "description p =
     orElse (properties p \<bind> prop_description \<bind> rich_text \<bind> first \<bind> plain_text) []"

definition thumbnailUrl :: "page \<Rightarrow> string option" where
  "thumbnailUrl p = properties p \<bind> prop_thumbnail_url \<bind> rich_text \<bind> first \<bind> plain_text"

definition imageFrontmatter :: "page \<Rightarrow> string" where
  \<open>imageFrontmatter p =
     (if truthy (thumbnailUrl p)
      then ''image:\<newline>  path: "'' @ toStr (thumbnailUrl p) @ ''"\<newline>  alt: "preview image"\<newline>''
      else [])\<close>

definition category :: "page \<Rightarrow> string" where
  "category p = orElse (properties p \<bind> prop_category \<bind> select \<bind> name) ''blog''"

definition tags :: "page \<Rightarrow> string option list" where
  "tags p =
     map name (case properties p \<bind> prop_tags \<bind> multi_select of None \<Rightarrow> [] | Some ts \<Rightarrow> ts)"

definition date :: "page \<Rightarrow> string \<Rightarrow> string" where
  "date p today = orElse (properties p \<bind> prop_date \<bind> date_range \<bind> start) today"

definition frontmatter :: "page \<Rightarrow> string \<Rightarrow> string" where
  \<open>frontmatter p today =
     ''---\<newline>'' @
     ''title: "'' @ title p @ ''"\<newline>'' @
     ''date: '' @ date p today @ ''\<newline>'' @
     ''categories: ["'' @ category p @ ''"]\<newline>'' @
     ''tags: ["'' @ join ''", "'' (tags p) @ ''"]\<newline>'' @
     ''description: "'' @ description p @ ''"\<newline>'' @
     ''permalink: /posts/'' @ pageId p @ ''\<newline>'' @
     ''math: true\<newline>'' @
     imageFrontmatter p @ ''---\<newline>\<newline>''\<close>

definition filename :: "page \<Rightarrow> string \<Rightarrow> string" where
  "filename p today = date p today @ ''-'' @ pageId p @ ''.md''"

section \<open>The host\<close>

text \<open>
  What the script does not compute itself is a field of the host: the two environment
  variables; the answer of \<open>notion.databases.query\<close> to the database identifier (the
  published pages, sorted); the answer of the request for the content blocks of a page; the
  markdown line notion-to-md renders for a block that has no custom transformer; the
  \<open>parent\<close> property of the object \<open>n2m.toMarkdownString\<close> returns, which is \<open>undefined\<close>
  (\<open>None\<close>) when the object has no such property, as for a page without blocks; the date
  \<open>moment().format("YYYY-MM-DD")\<close> gives while the record of a given position is
  processed; \<open>path.join\<close>; and the outcome of \<open>mkdirSync\<close> and of \<open>writeFileSync\<close>, \<open>None\<close>
  when the call returns and the error when it throws. The statements before the async
  function (lines 12 to 28) build the two clients and register the image transformer;
  they call nothing and write nothing.
\<close>

datatype content_block =
  ContentBlock (cb_type: string) (cb_id: string) (cb_image: "image_payload option")
    (cb_children: "content_block list")

record host =
  env_DATABASE_ID :: "string option"
  env_NOTION_TOKEN :: "string option"
  databases_query :: "string \<Rightarrow> js_error + page list"
  blocks_children_list :: "string \<Rightarrow> js_error + content_block list"
  renderBlock :: "content_block \<Rightarrow> string"
  toMarkdownString :: "mdblock list \<Rightarrow> string option"
  moment_format :: "nat \<Rightarrow> string"
  path_join :: "string \<Rightarrow> string \<Rightarrow> string"
  mkdirSync :: "string \<Rightarrow> js_error option"
  writeFileSync :: "string \<Rightarrow> string \<Rightarrow> js_error option"

section \<open>The conversion of a record's blocks\<close>

text \<open>
  Modelled from the spec: \<open>n2m.pageToMarkdown\<close> is a method of the package notion-to-md,
  which is not under \<open>src/\<close>. By sections 2, 4.2, 6 and 7 of the specification, one request
  retrieves the content block tree of the record; every block becomes a block of the
  intermediate representation with its type tag, its identifier, its own rendered line and
  its converted children, in the order of the source; the line of an image block is what
  the image transformer returns for it; and no error is caught inside the pipeline, so
  the first error of the request or of a transformer is the error of the conversion.
\<close>

fun blocksToMarkdown :: "host \<Rightarrow> content_block list \<Rightarrow> js_error + mdblock list"
  and blockToMarkdown :: "host \<Rightarrow> content_block \<Rightarrow> js_error + mdblock" where
  "blocksToMarkdown h [] = Inr []"
| "blocksToMarkdown h (b # bs) =
     (case blockToMarkdown h b of
        Inl err \<Rightarrow> Inl err
      | Inr m \<Rightarrow>
          (case blocksToMarkdown h bs of
             Inl err \<Rightarrow> Inl err
           | Inr ms \<Rightarrow> Inr (m # ms)))"
| "blockToMarkdown h (ContentBlock t i img cs) =
     (case (if t = ''image''
            then imageTransformer \<lparr>block_id = i, block_image = img\<rparr>
            else Inr (renderBlock h (ContentBlock t i img cs))) of
        Inl err \<Rightarrow> Inl err
      | Inr line \<Rightarrow>
          (case blocksToMarkdown h cs of
             Inl err \<Rightarrow> Inl err
           | Inr kids \<Rightarrow> Inr (MdBlock t i line (Some kids))))"

definition pageToMarkdown :: "host \<Rightarrow> string \<Rightarrow> js_error + mdblock list" where
  "pageToMarkdown h ident =
     (case blocks_children_list h ident of
        Inl err \<Rightarrow> Inl err
      | Inr blocks \<Rightarrow> blocksToMarkdown h blocks)"

text \<open>The image blocks of a tree, in the order in which the conversion meets them.\<close>

fun imageBlocks :: "content_block list \<Rightarrow> image_block list"
  and imageBlocksOf :: "content_block \<Rightarrow> image_block list" where
  "imageBlocks [] = []"
| "imageBlocks (b # bs) = imageBlocksOf b @ imageBlocks bs"
| "imageBlocksOf (ContentBlock t i img cs) =
     (if t = ''image'' then [\<lparr>block_id = i, block_image = img\<rparr>] else []) @ imageBlocks cs"

text \<open>
  An image block that lacks the object the transformer reads the URL from: the \<open>image\<close>
  payload, its \<open>file\<close> object when the type is \<open>file\<close>, its \<open>external\<close> object otherwise.
\<close>

definition missingObject :: "image_block \<Rightarrow> bool" where
  "missingObject b =
     (case block_image b of
        None \<Rightarrow> True
      | Some img \<Rightarrow>
          (if image_type img = Some ''file'' then image_file img = None
           else image_external img = None))"

section \<open>The run\<close>

text \<open>
  What the script does to the world, in order: the requests that go to the network, the
  directory it creates, the files it writes and the lines it prints. A call of
  \<open>mkdirSync\<close> or \<open>writeFileSync\<close> that throws leaves no effect.
\<close>

datatype effect =
    NotionQuery string
  | NotionFetch string
  | Mkdir string
  | WriteFile string string
  | ConsoleLog string
  | ConsoleError string js_error

definition processPage :: "host \<Rightarrow> nat \<Rightarrow> page \<Rightarrow> effect list \<times> js_error option" where
  \<comment> \<open>The body of the loop of lines 86 to 145, for the record at position \<open>i\<close>. Line 143
      is \<open>frontmatter + mdString.parent\<close>: a \<open>parent\<close> that is \<open>undefined\<close> is written as
      the text \<open>undefined\<close>.\<close>
  "processPage h i p =
     (let today = moment_format h i in
      case pageToMarkdown h (page_ident p) of
        Inl err \<Rightarrow> ([NotionFetch (page_ident p)], Some err)
      | Inr mdBlocks \<Rightarrow>
          (let mdString = toMarkdownString h (shiftHeadings mdBlocks);
               filepath = path_join h ''_posts'' (filename p today);
               content = frontmatter p today @ toStr mdString
           in case writeFileSync h filepath content of
                Some err \<Rightarrow> ([NotionFetch (page_ident p)], Some err)
              | None \<Rightarrow>
                  ([NotionFetch (page_ident p),
                    WriteFile filepath content,
                    ConsoleLog (''Generated: '' @ filename p today)], None)))"

fun exportPages :: "host \<Rightarrow> nat \<Rightarrow> page list \<Rightarrow> effect list \<times> js_error option" where
  \<comment> \<open>The loop: an error leaves it, and the records after the failing one are not read.\<close>
  "exportPages h i [] = ([], None)"
| "exportPages h i (p # ps) =
     (case processPage h i p of
        (es, Some err) \<Rightarrow> (es, Some err)
      | (es, None) \<Rightarrow> (case exportPages h (Suc i) ps of (es', r) \<Rightarrow> (es @ es', r)))"

definition run :: "host \<Rightarrow> effect list \<times> js_error option" where
  \<comment> \<open>The body of the async function of lines 54 to 146.\<close>
  "run h =
     (if \<not> truthy (env_DATABASE_ID h)
      then ([], Some (Error ''Missing required environment variable: DATABASE_ID''))
      else if \<not> truthy (env_NOTION_TOKEN h)
      then ([], Some (Error ''Missing required environment variable: NOTION_TOKEN''))
      else
        (let databaseId = toStr (env_DATABASE_ID h) in
         case databases_query h databaseId of
           Inl err \<Rightarrow> ([NotionQuery databaseId], Some err)
         | Inr results \<Rightarrow>
             (let announced =
                    [NotionQuery databaseId,
                     ConsoleLog (''Converting '' @ decimal (length results) @ '' post(s)...'')]
              in case mkdirSync h ''_posts'' of
                   Some err \<Rightarrow> (announced, Some err)
                 | None \<Rightarrow>
                     (case exportPages h 0 results of
                        (es, r) \<Rightarrow> (announced @ [Mkdir ''_posts''] @ es, r)))))"

definition main :: "host \<Rightarrow> effect list \<times> nat" where
  \<comment> \<open>The call with its \<open>catch\<close>: the effects, and the exit code of the process.\<close>
  "main h =
     (case run h of
        (es, None) \<Rightarrow> (es, 0)
      | (es, Some err) \<Rightarrow> (es @ [ConsoleError ''Export failed:'' err], 1))"

section \<open>Example inputs\<close>

text \<open>
  A record without properties, a record with all of them, a record whose values are
  empty, a record whose page has no blocks and a record whose page holds, inside a toggle,
  an image block of type \<open>file\<close> without a \<open>file\<close> object; a host that answers the query
  with the first two, in which nothing fails, and whose \<open>toMarkdownString\<close> returns no
  \<open>parent\<close> for the empty list, as that of notion-to-md does.
\<close>

definition examplePage :: page where
  "examplePage = \<lparr>page_ident = ''12ab-34cd-56ef'', properties = None\<rparr>"

definition examplePost :: page where
  "examplePost =
     \<lparr>page_ident = ''9f00-aa11'',
      properties = Some
        \<lparr>prop_title = Some \<lparr>title_runs = Some [\<lparr>plain_text = Some ''Hello''\<rparr>]\<rparr>,
         prop_page_id = Some \<lparr>rich_text = Some [\<lparr>plain_text = Some ''hello''\<rparr>]\<rparr>,
         prop_description = Some \<lparr>rich_text = Some []\<rparr>,
         prop_thumbnail_url = Some \<lparr>rich_text = Some [\<lparr>plain_text = Some ''http://x.org/t.png''\<rparr>]\<rparr>,
         prop_category = Some \<lparr>select = Some \<lparr>name = Some ''notes''\<rparr>\<rparr>,
         prop_tags = Some \<lparr>multi_select = Some [\<lparr>name = Some ''a''\<rparr>, \<lparr>name = Some ''b''\<rparr>]\<rparr>,
         prop_date = Some \<lparr>date_range = Some \<lparr>start = Some ''2024-01-01''\<rparr>\<rparr>\<rparr>\<rparr>"

definition exampleEmpty :: page where
  "exampleEmpty =
     \<lparr>page_ident = ''77-aa-88'',
      properties = Some
        \<lparr>prop_title = Some \<lparr>title_runs = Some []\<rparr>,
         prop_page_id = Some \<lparr>rich_text = Some [\<lparr>plain_text = Some []\<rparr>]\<rparr>,
         prop_description = Some \<lparr>rich_text = Some [\<lparr>plain_text = Some []\<rparr>, \<lparr>plain_text = Some ''more''\<rparr>]\<rparr>,
         prop_thumbnail_url = Some \<lparr>rich_text = Some [\<lparr>plain_text = Some []\<rparr>]\<rparr>,
         prop_category = Some \<lparr>select = Some \<lparr>name = Some []\<rparr>\<rparr>,
         prop_tags = Some \<lparr>multi_select = Some []\<rparr>,
         prop_date = Some \<lparr>date_range = Some \<lparr>start = Some []\<rparr>\<rparr>\<rparr>\<rparr>"

definition exampleBlank :: page where
  "exampleBlank = \<lparr>page_ident = ''00ff-00ff'', properties = None\<rparr>"

definition exampleBroken :: page where
  "exampleBroken = \<lparr>page_ident = ''bad0-bad0'', properties = None\<rparr>"

definition exampleBlocks :: "string \<Rightarrow> content_block list" where
  "exampleBlocks ident =
     (if ident = ''9f00-aa11'' then [ContentBlock ''heading_1'' ''b1'' None []]
      else if ident = ''12ab-34cd-56ef'' then [ContentBlock ''paragraph'' ''b2'' None []]
      else if ident = ''bad0-bad0'' then
        [ContentBlock ''toggle'' ''b3'' None
           [ContentBlock ''paragraph'' ''b4'' None [],
            ContentBlock ''image'' ''b5''
              (Some \<lparr>image_type = Some ''file'', image_file = None, image_external = None\<rparr>) []]]
      else [])"

definition exampleHost :: host where
  "exampleHost =
     \<lparr>env_DATABASE_ID = Some ''db1'',
      env_NOTION_TOKEN = Some ''secret'',
      databases_query =
        (\<lambda>d. if d = ''db1'' then Inr [examplePost, examplePage] else Inl (Rejected ''404'')),
      blocks_children_list = (\<lambda>ident. Inr (exampleBlocks ident)),
      renderBlock = (\<lambda>b. if cb_type b = ''heading_1'' then ''# Title'' else ''Some text.''),
      toMarkdownString =
        (\<lambda>bs. if bs = [] then None else Some (concat (map (\<lambda>b. parent b @ ''\<newline>'') bs))),
      moment_format = (\<lambda>i. ''2024-05-06''),
      path_join = (\<lambda>a b. a @ ''/'' @ b),
      mkdirSync = (\<lambda>d. None),
      writeFileSync = (\<lambda>path content. None)\<rparr>"

section \<open>Lemmas on the heading shifter\<close>

lemma shiftHeadings_map: "shiftHeadings bs = map shiftBlock bs"
  by (induction bs) simp_all

lemma children_shiftBlock:
  "children (shiftBlock b) = map_option (map shiftBlock) (children b)"
  by (cases b) (simp add: shiftHeadings_map split: option.split list.split)

lemma btype_shiftBlock: "btype (shiftBlock b) = btype b"
  by (cases b) simp

lemma blockId_shiftBlock: "blockId (shiftBlock b) = blockId b"
  by (cases b) simp

lemma parent_shiftBlock:
  "parent (shiftBlock b) =
     (if btype b = ''heading_1'' then replaceAtStart ''# '' ''## '' (parent b)
      else if btype b = ''heading_2'' then replaceAtStart ''## '' ''### '' (parent b)
      else if btype b = ''heading_3'' then replaceAtStart ''### '' ''#### '' (parent b)
      else parent b)"
  by (cases b) simp

lemma blockAt_map_shiftBlock:
  "blockAt path (map shiftBlock bs) = map_option shiftBlock (blockAt path bs)"
proof (induction path bs rule: blockAt.induct)
  case (1 bs)
  show ?case by simp
next
  case (2 i bs)
  show ?case by simp
next
  case (3 i j js bs)
  show ?case
  proof (cases "i < length bs")
    case False
    then show ?thesis by simp
  next
    case inside: True
    show ?thesis
    proof (cases "children (bs ! i)")
      case None
      with inside show ?thesis by (simp add: children_shiftBlock)
    next
      case (Some cs)
      with inside 3 show ?thesis by (simp add: children_shiftBlock)
    qed
  qed
qed

lemma blockAt_shiftHeadings:
  "blockAt path (shiftHeadings bs) = map_option shiftBlock (blockAt path bs)"
  by (simp add: shiftHeadings_map blockAt_map_shiftBlock)

lemma replace_h1: "prefix ''# '' p \<Longrightarrow> replaceAtStart ''# '' ''## '' p = CHR ''#'' # p"
  by (auto simp: replaceAtStart_def prefix_def)

lemma replace_h2: "prefix ''## '' p \<Longrightarrow> replaceAtStart ''## '' ''### '' p = CHR ''#'' # p"
  by (auto simp: replaceAtStart_def prefix_def)

lemma replace_h3: "prefix ''### '' p \<Longrightarrow> replaceAtStart ''### '' ''#### '' p = CHR ''#'' # p"
  by (auto simp: replaceAtStart_def prefix_def)

lemma replace_no_match: "\<not> prefix pat p \<Longrightarrow> replaceAtStart pat rep p = p"
  by (simp add: replaceAtStart_def)

lemma replace_h1_twice:
  "replaceAtStart ''# '' ''## '' (replaceAtStart ''# '' ''## '' p) = replaceAtStart ''# '' ''## '' p"
  by (auto simp: replaceAtStart_def prefix_def)

lemma replace_h2_twice:
  "replaceAtStart ''## '' ''### '' (replaceAtStart ''## '' ''### '' p)
     = replaceAtStart ''## '' ''### '' p"
  by (auto simp: replaceAtStart_def prefix_def)

lemma replace_h3_twice:
  "replaceAtStart ''### '' ''#### '' (replaceAtStart ''### '' ''#### '' p)
     = replaceAtStart ''### '' ''#### '' p"
  by (auto simp: replaceAtStart_def prefix_def)

lemma shift_twice:
  "shiftHeadings (shiftHeadings bs) = shiftHeadings bs"
  "shiftBlock (shiftBlock b) = shiftBlock b"
proof (induction bs and b rule: shiftHeadings_shiftBlock.induct)
  case 1
  show ?case by simp
next
  case (2 b bs)
  then show ?case by simp
next
  case (3 t i p cs)
  show ?case
  proof (cases cs)
    case None
    then show ?thesis
      by (simp add: replace_h1_twice replace_h2_twice replace_h3_twice)
  next
    case (Some xs)
    show ?thesis
    proof (cases xs)
      case Nil
      with Some show ?thesis
        by (simp add: replace_h1_twice replace_h2_twice replace_h3_twice)
    next
      case (Cons c cs')
      with Some 3 have "shiftHeadings (shiftHeadings (c # cs')) = shiftHeadings (c # cs')"
        by simp
      with Some Cons show ?thesis
        by (simp add: replace_h1_twice replace_h2_twice replace_h3_twice)
    qed
  qed
qed

lemma erase_shift:
  "eraseParents (shiftHeadings bs) = eraseParents bs"
  "eraseParent (shiftBlock b) = eraseParent b"
proof (induction bs and b rule: shiftHeadings_shiftBlock.induct)
  case 1
  show ?case by simp
next
  case (2 b bs)
  then show ?case by simp
next
  case (3 t i p cs)
  then show ?case by (simp split: option.split list.split)
qed

section \<open>Lemmas on the image transformer and the conversion\<close>

lemma imageTransformer_error:
  assumes "imageTransformer b = Inl e"
  shows "missingObject b \<and> (e = TypeError ''type'' \<or> e = TypeError ''url'')"
  using assms
  by (auto simp: imageTransformer_def imageUrl_def missingObject_def Let_def
      split: option.splits if_splits sum.splits)

lemma missingObject_error:
  assumes "missingObject b"
  shows "imageTransformer b = Inl (TypeError ''type'') \<or> imageTransformer b = Inl (TypeError ''url'')"
  using assms
  by (auto simp: imageTransformer_def imageUrl_def missingObject_def
      split: option.splits if_splits)

lemma conversion_error:
  "blocksToMarkdown h bs = Inl e \<Longrightarrow> \<exists>c \<in> set (imageBlocks bs). imageTransformer c = Inl e"
  "blockToMarkdown h b = Inl e \<Longrightarrow> \<exists>c \<in> set (imageBlocksOf b). imageTransformer c = Inl e"
proof (induction h bs and h b rule: blocksToMarkdown_blockToMarkdown.induct)
  case (1 h)
  then show ?case by simp
next
  case (2 h b bs)
  then show ?case by (auto split: sum.splits)
next
  case (3 h t i img cs)
  then show ?case by (auto split: sum.splits if_splits)
qed

lemma conversion_result:
  "blocksToMarkdown h bs = Inr ms \<Longrightarrow> \<forall>c \<in> set (imageBlocks bs). \<not> missingObject c"
  "blockToMarkdown h b = Inr m \<Longrightarrow> \<forall>c \<in> set (imageBlocksOf b). \<not> missingObject c"
proof (induction h bs and h b arbitrary: ms and m rule: blocksToMarkdown_blockToMarkdown.induct)
  case (1 h)
  then show ?case by simp
next
  case (2 h b bs)
  then show ?case by (auto split: sum.splits)
next
  case (3 h t i img cs)
  then show ?case
    by (auto split: sum.splits if_splits dest: missingObject_error)
qed

lemma conversion_aborts:
  assumes "blocks_children_list h ident = Inr blocks"
    and "c \<in> set (imageBlocks blocks)" and "missingObject c"
  shows "\<exists>c' e. c' \<in> set (imageBlocks blocks) \<and> missingObject c' \<and>
     imageTransformer c' = Inl e \<and> (e = TypeError ''type'' \<or> e = TypeError ''url'') \<and>
     pageToMarkdown h ident = Inl e"
proof (cases "blocksToMarkdown h blocks")
  case (Inl e)
  from conversion_error(1) [OF Inl] obtain c' where
    "c' \<in> set (imageBlocks blocks)" and "imageTransformer c' = Inl e"
    by blast
  with imageTransformer_error [of c' e] Inl assms(1) show ?thesis
    by (auto simp: pageToMarkdown_def)
next
  case (Inr ms)
  from conversion_result(1) [OF Inr] assms(2,3) show ?thesis by blast
qed

lemma exportPages_append:
  assumes "snd (exportPages h i before) = None"
  shows "exportPages h i (before @ rest) =
     (fst (exportPages h i before) @ fst (exportPages h (i + length before) rest),
      snd (exportPages h (i + length before) rest))"
  using assms
proof (induction before arbitrary: i)
  case Nil
  then show ?case by simp
next
  case (Cons p ps)
  obtain es r where here: "processPage h i p = (es, r)"
    by (cases "processPage h i p")
  obtain es' r' where there: "exportPages h (Suc i) ps = (es', r')"
    by (cases "exportPages h (Suc i) ps")
  from Cons.prems here there have ok: "r = None" "r' = None"
    by (auto split: option.splits)
  with there have "snd (exportPages h (Suc i) ps) = None" by simp
  from Cons.IH [OF this] there here ok show ?case
    by (simp split: prod.splits)
qed

lemma processPage_conversion_error:
  assumes "pageToMarkdown h (page_ident p) = Inl e"
  shows "processPage h i p = ([NotionFetch (page_ident p)], Some e)"
  using assms by (simp add: processPage_def Let_def)

lemma main_aborts:
  assumes "truthy (env_DATABASE_ID h)" and "truthy (env_NOTION_TOKEN h)"
    and "databases_query h (toStr (env_DATABASE_ID h)) = Inr (before @ p # rest)"
    and "mkdirSync h ''_posts'' = None"
    and "snd (exportPages h 0 before) = None"
    and "pageToMarkdown h (page_ident p) = Inl e"
  shows "main h =
     ([NotionQuery (toStr (env_DATABASE_ID h)),
       ConsoleLog (''Converting '' @ decimal (length (before @ p # rest)) @ '' post(s)...''),
       Mkdir ''_posts'']
      @ fst (exportPages h 0 before)
      @ [NotionFetch (page_ident p), ConsoleError ''Export failed:'' e], 1)"
proof -
  have "exportPages h (length before) (p # rest) = ([NotionFetch (page_ident p)], Some e)"
    by (simp add: processPage_conversion_error [OF assms(6)])
  with exportPages_append [OF assms(5), of "p # rest"]
  have "exportPages h 0 (before @ p # rest)
      = (fst (exportPages h 0 before) @ [NotionFetch (page_ident p)], Some e)"
    by simp
  with assms(1-4) show ?thesis
    by (simp add: main_def run_def Let_def)
qed

section \<open>Lemmas on the front matter and the run\<close>

lemma sub_tags: \<open>tags p = [] \<Longrightarrow> sublist ''\<newline>tags: [""]\<newline>'' (frontmatter p today)\<close>
proof -
  assume t: "tags p = []"
  have \<open>frontmatter p today =
     (''---\<newline>'' @ ''title: "'' @ title p @ ''"\<newline>'' @ ''date: '' @ date p today @ ''\<newline>'' @ ''categories: ["'' @ category p @ ''"]'')
     @ ''\<newline>tags: [""]\<newline>'' @
     (''description: "'' @ description p @ ''"\<newline>'' @
     ''permalink: /posts/'' @ pageId p @ ''\<newline>'' @
     ''math: true\<newline>'' @
     imageFrontmatter p @ ''---\<newline>\<newline>'')\<close>
    by (simp add: frontmatter_def t)
  then show ?thesis unfolding sublist_def by blast
qed

lemma frontmatter_title_line:
  \<open>title p = ''Untitled'' \<Longrightarrow> sublist ''\<newline>title: "Untitled"\<newline>'' (frontmatter p today)\<close>
proof -
  assume t: "title p = ''Untitled''"
  have \<open>frontmatter p today = ''---'' @ ''\<newline>title: "Untitled"\<newline>'' @
     (''date: '' @ date p today @ ''\<newline>'' @
      ''categories: ["'' @ category p @ ''"]\<newline>'' @
      ''tags: ["'' @ join ''", "'' (tags p) @ ''"]\<newline>'' @
      ''description: "'' @ description p @ ''"\<newline>'' @
      ''permalink: /posts/'' @ pageId p @ ''\<newline>'' @ ''math: true\<newline>'' @
      imageFrontmatter p @ ''---\<newline>\<newline>'')\<close>
    by (simp add: frontmatter_def t)
  then show ?thesis unfolding sublist_def by blast
qed

lemma processPage_ok:
  assumes "pageToMarkdown h (page_ident p) = Inr bs"
    and "writeFileSync h (path_join h ''_posts'' (filename p (moment_format h i)))
           (frontmatter p (moment_format h i) @ toStr (toMarkdownString h (shiftHeadings bs))) = None"
  shows "processPage h i p =
     ([NotionFetch (page_ident p),
       WriteFile (path_join h ''_posts'' (filename p (moment_format h i)))
         (frontmatter p (moment_format h i) @ toStr (toMarkdownString h (shiftHeadings bs))),
       ConsoleLog (''Generated: '' @ filename p (moment_format h i))],
      None)"
  using assms by (simp add: processPage_def Let_def)

lemma processPage_error:
  assumes "snd (processPage h i p) = Some e"
  shows "pageToMarkdown h (page_ident p) = Inl e \<or>
     (\<exists>bs. pageToMarkdown h (page_ident p) = Inr bs \<and>
        writeFileSync h (path_join h ''_posts'' (filename p (moment_format h i)))
          (frontmatter p (moment_format h i) @ toStr (toMarkdownString h (shiftHeadings bs)))
          = Some e)"
  using assms by (auto simp: processPage_def Let_def split: sum.splits option.splits)

lemma ex_fm1: \<open>frontmatter examplePost ''2024-05-06'' = ''---\<newline>title: "Hello"\<newline>date: 2024-01-01\<newline>categories: ["notes"]\<newline>tags: ["a", "b"]\<newline>description: ""\<newline>permalink: /posts/hello\<newline>math: true\<newline>image:\<newline>  path: "http://x.org/t.png"\<newline>  alt: "preview image"\<newline>---\<newline>\<newline>''\<close>
  by (simp add: frontmatter_def examplePost_def title_def date_def category_def tags_def description_def pageId_def imageFrontmatter_def thumbnailUrl_def orElse_def first_def truthy_def toStr_def)

lemma ex_file1: "filename examplePost ''2024-05-06'' = ''2024-01-01-hello.md''"
  by (simp add: filename_def examplePost_def date_def pageId_def orElse_def first_def)

lemma ex_process1:
  \<open>processPage (exampleHost\<lparr>databases_query := q\<rparr>) 0 examplePost =
     ([NotionFetch ''9f00-aa11'',
       WriteFile ''_posts/2024-01-01-hello.md''
         ''---\<newline>title: "Hello"\<newline>date: 2024-01-01\<newline>categories: ["notes"]\<newline>tags: ["a", "b"]\<newline>description: ""\<newline>permalink: /posts/hello\<newline>math: true\<newline>image:\<newline>  path: "http://x.org/t.png"\<newline>  alt: "preview image"\<newline>---\<newline>\<newline>## Title\<newline>'',
       ConsoleLog ''Generated: 2024-01-01-hello.md''], None)\<close>
proof -
  have conv: "pageToMarkdown (exampleHost\<lparr>databases_query := q\<rparr>) ''9f00-aa11''
      = Inr [MdBlock ''heading_1'' ''b1'' ''# Title'' (Some [])]"
    by (simp add: pageToMarkdown_def exampleHost_def exampleBlocks_def)
  have host: "moment_format exampleHost 0 = ''2024-05-06''"
    "path_join exampleHost = (\<lambda>a b. a @ ''/'' @ b)"
    "writeFileSync exampleHost = (\<lambda>path content. None)"
    "toMarkdownString exampleHost =
       (\<lambda>bs. if bs = [] then None else Some (concat (map (\<lambda>b. parent b @ ''\<newline>'') bs)))"
    "page_ident examplePost = ''9f00-aa11''"
    by (simp_all add: exampleHost_def examplePost_def)
  show ?thesis
    by (simp add: processPage_def conv Let_def host ex_fm1 ex_file1 replaceAtStart_def toStr_def)
qed

section \<open>Claims on the heading shifter\<close>

text \<open>
  C1 (as stated): on a tree with a heading whose text starts with its expected prefix, a
  second \<open>shiftHeadings\<close> gives a tree different from the first one's. The code does not
  behave so: the heading \<open># Title\<close> becomes \<open>## Title\<close>, whose second character is not a
  space, so \<open>/^# /\<close> does not match it again and the second run changes nothing.
\<close>

theorem shiftHeadings_twice_counterexample:
  "shiftHeadings [MdBlock ''heading_1'' ''b1'' ''# Title'' None]
     = [MdBlock ''heading_1'' ''b1'' ''## Title'' None] \<and>
   shiftHeadings (shiftHeadings [MdBlock ''heading_1'' ''b1'' ''# Title'' None])
     = shiftHeadings [MdBlock ''heading_1'' ''b1'' ''# Title'' None]"
  by (simp add: replaceAtStart_def)

text \<open>
  C1 (amended): \<open>shiftHeadings\<close> is idempotent on every block tree: applying it twice gives
  the tree that applying it once gives. A demoted fragment starts with \<open>## \<close>, \<open>### \<close> or
  \<open>#### \<close>, which is not the prefix its type expects.
\<close>

theorem shiftHeadings_idempotent:
  "shiftHeadings (shiftHeadings bs) = shiftHeadings bs"
  by (rule shift_twice(1))

theorem shiftHeadings_idempotent_witness:
  "shiftHeadings (shiftHeadings
      [MdBlock ''toggle'' ''b2'' ''Details''
         (Some [MdBlock ''heading_2'' ''b3'' ''## Inner'' None])])
   = [MdBlock ''toggle'' ''b2'' ''Details''
         (Some [MdBlock ''heading_2'' ''b3'' ''### Inner'' None])]"
  using shiftHeadings_idempotent
    [of "[MdBlock ''toggle'' ''b2'' ''Details''
            (Some [MdBlock ''heading_2'' ''b3'' ''## Inner'' None])]"]
  by (simp add: replaceAtStart_def)

text \<open>
  C2: for every block of the tree (the block \<open>b\<close> at any path) of type \<open>heading_1\<close>,
  \<open>heading_2\<close> or \<open>heading_3\<close>: when its fragment starts with \<open># \<close>, \<open>## \<close> or \<open>### \<close>
  respectively, the fragment after \<open>shiftHeadings\<close> is the old one with one more \<open>#\<close> in
  front; when it does not, the fragment is unchanged. \<open>shiftHeadings\<close> has no error branch.
\<close>

theorem shiftHeadings_demotes_matching:
  assumes "blockAt path bs = Some b"
  shows "\<exists>b'. blockAt path (shiftHeadings bs) = Some b' \<and>
    (btype b = ''heading_1'' \<and> prefix ''# '' (parent b) \<longrightarrow> parent b' = CHR ''#'' # parent b) \<and>
    (btype b = ''heading_2'' \<and> prefix ''## '' (parent b) \<longrightarrow> parent b' = CHR ''#'' # parent b) \<and>
    (btype b = ''heading_3'' \<and> prefix ''### '' (parent b) \<longrightarrow> parent b' = CHR ''#'' # parent b) \<and>
    (btype b = ''heading_1'' \<and> \<not> prefix ''# '' (parent b) \<longrightarrow> parent b' = parent b) \<and>
    (btype b = ''heading_2'' \<and> \<not> prefix ''## '' (parent b) \<longrightarrow> parent b' = parent b) \<and>
    (btype b = ''heading_3'' \<and> \<not> prefix ''### '' (parent b) \<longrightarrow> parent b' = parent b)"
proof -
  from assms have at: "blockAt path (shiftHeadings bs) = Some (shiftBlock b)"
    by (simp add: blockAt_shiftHeadings)
  have "(btype b = ''heading_1'' \<and> prefix ''# '' (parent b)
          \<longrightarrow> parent (shiftBlock b) = CHR ''#'' # parent b)"
    by (simp add: parent_shiftBlock replace_h1)
  moreover have "(btype b = ''heading_2'' \<and> prefix ''## '' (parent b)
          \<longrightarrow> parent (shiftBlock b) = CHR ''#'' # parent b)"
    by (simp add: parent_shiftBlock replace_h2)
  moreover have "(btype b = ''heading_3'' \<and> prefix ''### '' (parent b)
          \<longrightarrow> parent (shiftBlock b) = CHR ''#'' # parent b)"
    by (simp add: parent_shiftBlock replace_h3)
  moreover have "(btype b = ''heading_1'' \<and> \<not> prefix ''# '' (parent b)
          \<longrightarrow> parent (shiftBlock b) = parent b)"
    by (simp add: parent_shiftBlock replace_no_match)
  moreover have "(btype b = ''heading_2'' \<and> \<not> prefix ''## '' (parent b)
          \<longrightarrow> parent (shiftBlock b) = parent b)"
    by (simp add: parent_shiftBlock replace_no_match)
  moreover have "(btype b = ''heading_3'' \<and> \<not> prefix ''### '' (parent b)
          \<longrightarrow> parent (shiftBlock b) = parent b)"
    by (simp add: parent_shiftBlock replace_no_match)
  ultimately show ?thesis using at by blast
qed

theorem shiftHeadings_demotes_matching_witness:
  "blockAt [1, 0]
     [MdBlock ''heading_1'' ''b1'' ''Title'' (Some []),
      MdBlock ''toggle'' ''b2'' ''Details''
        (Some [MdBlock ''heading_2'' ''b3'' ''## Inner'' None])]
     = Some (MdBlock ''heading_2'' ''b3'' ''## Inner'' None) \<and>
   (\<exists>b'. blockAt [1, 0]
       (shiftHeadings
         [MdBlock ''heading_1'' ''b1'' ''Title'' (Some []),
          MdBlock ''toggle'' ''b2'' ''Details''
            (Some [MdBlock ''heading_2'' ''b3'' ''## Inner'' None])]) = Some b' \<and>
      parent b' = ''### Inner'') \<and>
   (\<exists>b'. blockAt [0]
       (shiftHeadings
         [MdBlock ''heading_1'' ''b1'' ''Title'' (Some []),
          MdBlock ''toggle'' ''b2'' ''Details''
            (Some [MdBlock ''heading_2'' ''b3'' ''## Inner'' None])]) = Some b' \<and>
      parent b' = ''Title'')"
proof -
  let ?T = "[MdBlock ''heading_1'' ''b1'' ''Title'' (Some []),
      MdBlock ''toggle'' ''b2'' ''Details''
        (Some [MdBlock ''heading_2'' ''b3'' ''## Inner'' None])]"
  have inner: "blockAt [1, 0] ?T = Some (MdBlock ''heading_2'' ''b3'' ''## Inner'' None)"
    by simp
  have top: "blockAt [0] ?T = Some (MdBlock ''heading_1'' ''b1'' ''Title'' (Some []))"
    by simp
  from shiftHeadings_demotes_matching [OF inner]
  have "\<exists>b'. blockAt [1, 0] (shiftHeadings ?T) = Some b' \<and> parent b' = ''### Inner''"
    by simp
  moreover from shiftHeadings_demotes_matching [OF top]
  have "\<exists>b'. blockAt [0] (shiftHeadings ?T) = Some b' \<and> parent b' = ''Title''"
    by simp
  ultimately show ?thesis using inner by blast
qed

text \<open>
  C3: \<open>shiftHeadings\<close> goes into the children of every block, whatever the block's type
  \<open>t\<close>: the children of the result are \<open>shiftHeadings\<close> of the children. So the block at any
  path of the tree, of any depth and below containers of any type, is rewritten to what
  \<open>shiftHeadings\<close> makes of it as the only top-level block.
\<close>

theorem shiftHeadings_reaches_nested:
  "(\<exists>p'. shiftHeadings [MdBlock t i p (Some cs)] = [MdBlock t i p' (Some (shiftHeadings cs))]) \<and>
   (blockAt path bs = Some b \<longrightarrow>
      (\<exists>b'. blockAt path (shiftHeadings bs) = Some b' \<and> shiftHeadings [b] = [b']))"
proof -
  have "\<exists>p'. shiftHeadings [MdBlock t i p (Some cs)] = [MdBlock t i p' (Some (shiftHeadings cs))]"
    by (cases cs) simp_all
  moreover have "blockAt path bs = Some b \<longrightarrow>
      (\<exists>b'. blockAt path (shiftHeadings bs) = Some b' \<and> shiftHeadings [b] = [b'])"
    by (simp add: blockAt_shiftHeadings)
  ultimately show ?thesis by (rule conjI)
qed

theorem shiftHeadings_reaches_nested_witness:
  "blockAt [0, 0, 1]
     [MdBlock ''toggle'' ''b1'' ''Outer''
        (Some [MdBlock ''quote'' ''b2'' ''> Inner''
           (Some [MdBlock ''paragraph'' ''b3'' ''text'' None,
                  MdBlock ''heading_1'' ''b4'' ''# Deep'' None])])]
     = Some (MdBlock ''heading_1'' ''b4'' ''# Deep'' None) \<and>
   blockAt [0, 0, 1]
     (shiftHeadings
       [MdBlock ''toggle'' ''b1'' ''Outer''
          (Some [MdBlock ''quote'' ''b2'' ''> Inner''
             (Some [MdBlock ''paragraph'' ''b3'' ''text'' None,
                    MdBlock ''heading_1'' ''b4'' ''# Deep'' None])])])
     = Some (MdBlock ''heading_1'' ''b4'' ''## Deep'' None) \<and>
   shiftHeadings [MdBlock ''heading_1'' ''b4'' ''# Deep'' None]
     = [MdBlock ''heading_1'' ''b4'' ''## Deep'' None]"
proof -
  let ?T = "[MdBlock ''toggle'' ''b1'' ''Outer''
        (Some [MdBlock ''quote'' ''b2'' ''> Inner''
           (Some [MdBlock ''paragraph'' ''b3'' ''text'' None,
                  MdBlock ''heading_1'' ''b4'' ''# Deep'' None])])]"
  have deep: "blockAt [0, 0, 1] ?T = Some (MdBlock ''heading_1'' ''b4'' ''# Deep'' None)"
    by simp
  have alone: "shiftHeadings [MdBlock ''heading_1'' ''b4'' ''# Deep'' None]
     = [MdBlock ''heading_1'' ''b4'' ''## Deep'' None]"
    by (simp add: replaceAtStart_def)
  from shiftHeadings_reaches_nested [of _ _ _ "[]" "[0, 0, 1]" ?T] deep
  obtain b' where "blockAt [0, 0, 1] (shiftHeadings ?T) = Some b'"
    and "shiftHeadings [MdBlock ''heading_1'' ''b4'' ''# Deep'' None] = [b']"
    by blast
  with alone have "blockAt [0, 0, 1] (shiftHeadings ?T)
          = Some (MdBlock ''heading_1'' ''b4'' ''## Deep'' None)"
    by simp
  with deep alone show ?thesis by blast
qed

text \<open>
  C10: \<open>shiftHeadings\<close> writes the \<open>parent\<close> text of heading blocks only. The tree with the
  \<open>parent\<close> texts blanked is the same before and after (type tags, identifiers, the
  children lists and their order, an absent \<open>children\<close> field); a path names a block after
  exactly when it names one before, with the same type, identifier and number of children;
  and a block whose type is none of the three heading types keeps its \<open>parent\<close> text.
\<close>

theorem shiftHeadings_frame:
  "eraseParents (shiftHeadings bs) = eraseParents bs \<and>
   length (shiftHeadings bs) = length bs \<and>
   (\<forall>path. blockAt path bs = None \<longrightarrow> blockAt path (shiftHeadings bs) = None) \<and>
   (\<forall>path b. blockAt path bs = Some b \<longrightarrow>
      (\<exists>b'. blockAt path (shiftHeadings bs) = Some b' \<and>
         btype b' = btype b \<and> blockId b' = blockId b \<and>
         map_option length (children b') = map_option length (children b) \<and>
         (btype b \<notin> headingTypes \<longrightarrow> parent b' = parent b)))"
proof -
  have "btype b \<notin> headingTypes \<longrightarrow> parent (shiftBlock b) = parent b" for b
    by (simp add: parent_shiftBlock headingTypes_def)
  moreover have "map_option length (children (shiftBlock b)) = map_option length (children b)"
    for b
    by (cases "children b") (simp_all add: children_shiftBlock)
  ultimately have "\<forall>path b. blockAt path bs = Some b \<longrightarrow>
      (\<exists>b'. blockAt path (shiftHeadings bs) = Some b' \<and>
         btype b' = btype b \<and> blockId b' = blockId b \<and>
         map_option length (children b') = map_option length (children b) \<and>
         (btype b \<notin> headingTypes \<longrightarrow> parent b' = parent b))"
    by (simp add: blockAt_shiftHeadings btype_shiftBlock blockId_shiftBlock)
  moreover have "\<forall>path. blockAt path bs = None \<longrightarrow> blockAt path (shiftHeadings bs) = None"
    by (simp add: blockAt_shiftHeadings)
  moreover have "length (shiftHeadings bs) = length bs"
    by (simp add: shiftHeadings_map)
  ultimately show ?thesis using erase_shift(1) by blast
qed

theorem shiftHeadings_frame_witness:
  "eraseParents (shiftHeadings
      [MdBlock ''heading_1'' ''b1'' ''# Title'' (Some []),
       MdBlock ''toggle'' ''b2'' ''# Details''
         (Some [MdBlock ''heading_2'' ''b3'' ''## Inner'' None])])
     = [MdBlock ''heading_1'' ''b1'' [] (Some []),
        MdBlock ''toggle'' ''b2'' []
          (Some [MdBlock ''heading_2'' ''b3'' [] None])] \<and>
   (\<exists>b'. blockAt [1]
       (shiftHeadings
         [MdBlock ''heading_1'' ''b1'' ''# Title'' (Some []),
          MdBlock ''toggle'' ''b2'' ''# Details''
            (Some [MdBlock ''heading_2'' ''b3'' ''## Inner'' None])]) = Some b' \<and>
      btype b' = ''toggle'' \<and> blockId b' = ''b2'' \<and>
      map_option length (children b') = Some 1 \<and> parent b' = ''# Details'')"
proof -
  let ?T = "[MdBlock ''heading_1'' ''b1'' ''# Title'' (Some []),
       MdBlock ''toggle'' ''b2'' ''# Details''
         (Some [MdBlock ''heading_2'' ''b3'' ''## Inner'' None])]"
  note frame = shiftHeadings_frame [of ?T]
  from frame have "eraseParents (shiftHeadings ?T) = eraseParents ?T"
    by blast
  then have erased: "eraseParents (shiftHeadings ?T)
     = [MdBlock ''heading_1'' ''b1'' [] (Some []),
        MdBlock ''toggle'' ''b2'' []
          (Some [MdBlock ''heading_2'' ''b3'' [] None])]"
    by simp
  have at: "blockAt [1] ?T = Some (MdBlock ''toggle'' ''b2'' ''# Details''
         (Some [MdBlock ''heading_2'' ''b3'' ''## Inner'' None]))"
    by simp
  have plain: "''toggle'' \<notin> headingTypes"
    by (simp add: headingTypes_def)
  from frame at have "\<exists>b'. blockAt [1] (shiftHeadings ?T) = Some b' \<and>
      btype b' = btype (MdBlock ''toggle'' ''b2'' ''# Details''
         (Some [MdBlock ''heading_2'' ''b3'' ''## Inner'' None])) \<and>
      blockId b' = blockId (MdBlock ''toggle'' ''b2'' ''# Details''
         (Some [MdBlock ''heading_2'' ''b3'' ''## Inner'' None])) \<and>
      map_option length (children b') = map_option length (children (MdBlock ''toggle'' ''b2'' ''# Details''
         (Some [MdBlock ''heading_2'' ''b3'' ''## Inner'' None]))) \<and>
      (btype (MdBlock ''toggle'' ''b2'' ''# Details''
         (Some [MdBlock ''heading_2'' ''b3'' ''## Inner'' None])) \<notin> headingTypes
        \<longrightarrow> parent b' = parent (MdBlock ''toggle'' ''b2'' ''# Details''
         (Some [MdBlock ''heading_2'' ''b3'' ''## Inner'' None])))"
    by blast
  with plain have "\<exists>b'. blockAt [1] (shiftHeadings ?T) = Some b' \<and>
      btype b' = ''toggle'' \<and> blockId b' = ''b2'' \<and>
      map_option length (children b') = Some 1 \<and> parent b' = ''# Details''"
    by simp
  with erased show ?thesis by blast
qed

section \<open>Claims on the image transformer\<close>

text \<open>
  C4: for an image block whose payload has type \<open>file\<close> and a \<open>file\<close> object with a URL,
  the transformer returns exactly
  \<open>![image](https://www.notion.so/image/E?table=block&id=I&cache=v2)\<close>, with \<open>E\<close> the
  percent-encoding of the URL and \<open>I\<close> the block's identifier; for a payload of type
  \<open>external\<close> with an \<open>external\<close> object with a URL, the same from that URL.
\<close>

theorem imageTransformer_proxy_url:
  assumes "block_image b = Some img" and "url f = Some u"
    and "(image_type img = Some ''file'' \<and> image_file img = Some f) \<or>
         (image_type img = Some ''external'' \<and> image_external img = Some f)"
  shows "imageTransformer b =
     Inr (''![image](https://www.notion.so/image/'' @ encodeURIComponent u
          @ ''?table=block&id='' @ block_id b @ ''&cache=v2)'')"
  using assms by (auto simp: imageTransformer_def imageUrl_def toStr_def)

theorem imageTransformer_proxy_url_witness:
  "imageTransformer
     \<lparr>block_id = ''b1'',
      block_image = Some \<lparr>image_type = Some ''file'',
         image_file = Some \<lparr>url = Some ''https://s3.aws.com/a b.png?X=1&Y=2''\<rparr>,
         image_external = None\<rparr>\<rparr>
   = Inr ''![image](https://www.notion.so/image/https%3A%2F%2Fs3.aws.com%2Fa%20b.png%3FX%3D1%26Y%3D2?table=block&id=b1&cache=v2)'' \<and>
   imageTransformer
     \<lparr>block_id = ''b2'',
      block_image = Some \<lparr>image_type = Some ''external'',
         image_file = None,
         image_external = Some \<lparr>url = Some ''http://x.org/~me/pic_1.png''\<rparr>\<rparr>\<rparr>
   = Inr ''![image](https://www.notion.so/image/http%3A%2F%2Fx.org%2F~me%2Fpic_1.png?table=block&id=b2&cache=v2)''"
proof -
  have enc1: "encodeURIComponent ''https://s3.aws.com/a b.png?X=1&Y=2''
      = ''https%3A%2F%2Fs3.aws.com%2Fa%20b.png%3FX%3D1%26Y%3D2''"
    by (simp add: encodeURIComponent_def percentEncode_def uriUnreserved_def hexDigit_def)
  have enc2: "encodeURIComponent ''http://x.org/~me/pic_1.png''
      = ''http%3A%2F%2Fx.org%2F~me%2Fpic_1.png''"
    by (simp add: encodeURIComponent_def percentEncode_def uriUnreserved_def hexDigit_def)
  have direct: "imageTransformer
     \<lparr>block_id = ''b1'',
      block_image = Some \<lparr>image_type = Some ''file'',
         image_file = Some \<lparr>url = Some ''https://s3.aws.com/a b.png?X=1&Y=2''\<rparr>,
         image_external = None\<rparr>\<rparr>
   = Inr ''![image](https://www.notion.so/image/https%3A%2F%2Fs3.aws.com%2Fa%20b.png%3FX%3D1%26Y%3D2?table=block&id=b1&cache=v2)''"
    using imageTransformer_proxy_url
      [of "\<lparr>block_id = ''b1'',
            block_image = Some \<lparr>image_type = Some ''file'',
              image_file = Some \<lparr>url = Some ''https://s3.aws.com/a b.png?X=1&Y=2''\<rparr>,
              image_external = None\<rparr>\<rparr>"
          "\<lparr>image_type = Some ''file'',
            image_file = Some \<lparr>url = Some ''https://s3.aws.com/a b.png?X=1&Y=2''\<rparr>,
            image_external = None\<rparr>"
          "\<lparr>url = Some ''https://s3.aws.com/a b.png?X=1&Y=2''\<rparr>"
          "''https://s3.aws.com/a b.png?X=1&Y=2''"]
    by (simp add: enc1)
  have outside: "imageTransformer
     \<lparr>block_id = ''b2'',
      block_image = Some \<lparr>image_type = Some ''external'',
         image_file = None,
         image_external = Some \<lparr>url = Some ''http://x.org/~me/pic_1.png''\<rparr>\<rparr>\<rparr>
   = Inr ''![image](https://www.notion.so/image/http%3A%2F%2Fx.org%2F~me%2Fpic_1.png?table=block&id=b2&cache=v2)''"
    using imageTransformer_proxy_url
      [of "\<lparr>block_id = ''b2'',
            block_image = Some \<lparr>image_type = Some ''external'',
              image_file = None,
              image_external = Some \<lparr>url = Some ''http://x.org/~me/pic_1.png''\<rparr>\<rparr>\<rparr>"
          "\<lparr>image_type = Some ''external'',
            image_file = None,
            image_external = Some \<lparr>url = Some ''http://x.org/~me/pic_1.png''\<rparr>\<rparr>"
          "\<lparr>url = Some ''http://x.org/~me/pic_1.png''\<rparr>"
          "''http://x.org/~me/pic_1.png''"]
    by (simp add: enc2)
  from direct outside show ?thesis by (rule conjI)
qed

text \<open>
  C6 (as stated): an image block whose payload has neither shape makes the transformer
  raise. The code does not check the shape; it raises only where it reads a property of
  a missing object. A payload of type \<open>file\<close> whose \<open>file\<close> object has no \<open>url\<close>, and no
  \<open>external\<close> object, has neither shape, and the transformer returns a reference to the
  URL \<open>undefined\<close>.
\<close>

theorem imageTransformer_no_url_counterexample:
  "imageTransformer
     \<lparr>block_id = ''b1'',
      block_image = Some \<lparr>image_type = Some ''file'',
         image_file = Some \<lparr>url = None\<rparr>,
         image_external = None\<rparr>\<rparr>
   = Inr ''![image](https://www.notion.so/image/undefined?table=block&id=b1&cache=v2)''"
  by (simp add: imageTransformer_def imageUrl_def toStr_def encodeURIComponent_def
      percentEncode_def uriUnreserved_def hexDigit_def)

text \<open>
  C6 (amended): the transformer raises an error (a \<open>TypeError\<close>) for every image block that
  lacks the object it reads the URL from (\<open>missingObject\<close>: the \<open>image\<close> payload itself, the
  \<open>file\<close> object when the type is \<open>file\<close>, the \<open>external\<close> object for every other type), and
  for no other; and this failure aborts the processing of the whole record. When the block tree of a record holds such an image
  block, the conversion of the record rejects with the error the transformer raises for
  one of them, the record gets no file, the records after it are not processed, and the
  run, which has processed the records before it, prints that error and ends with exit
  code 1.
\<close>

theorem imageTransformer_raises_on_missing_object:
  "(block_image b = None \<longrightarrow> imageTransformer b = Inl (TypeError ''type'')) \<and>
   (block_image b = Some img \<and> image_type img = Some ''file'' \<and> image_file img = None
      \<longrightarrow> imageTransformer b = Inl (TypeError ''url'')) \<and>
   (block_image b = Some img \<and> image_type img \<noteq> Some ''file'' \<and> image_external img = None
      \<longrightarrow> imageTransformer b = Inl (TypeError ''url'')) \<and>
   missingObject b = (\<exists>err. imageTransformer b = Inl err) \<and>
   (truthy (env_DATABASE_ID h) \<and> truthy (env_NOTION_TOKEN h) \<and>
    databases_query h (toStr (env_DATABASE_ID h)) = Inr (before @ p # rest) \<and>
    mkdirSync h ''_posts'' = None \<and>
    snd (exportPages h 0 before) = None \<and>
    blocks_children_list h (page_ident p) = Inr blocks \<and>
    c \<in> set (imageBlocks blocks) \<and> missingObject c \<longrightarrow>
      (\<exists>c' e. c' \<in> set (imageBlocks blocks) \<and> missingObject c' \<and>
         imageTransformer c' = Inl e \<and>
         pageToMarkdown h (page_ident p) = Inl e \<and>
         processPage h (length before) p = ([NotionFetch (page_ident p)], Some e) \<and>
         main h =
           ([NotionQuery (toStr (env_DATABASE_ID h)),
             ConsoleLog (''Converting '' @ decimal (length (before @ p # rest)) @ '' post(s)...''),
             Mkdir ''_posts'']
            @ fst (exportPages h 0 before)
            @ [NotionFetch (page_ident p), ConsoleError ''Export failed:'' e], 1)))"
proof -
  have "block_image b = None \<longrightarrow> imageTransformer b = Inl (TypeError ''type'')"
    by (simp add: imageTransformer_def)
  moreover have "block_image b = Some img \<and> image_type img = Some ''file'' \<and> image_file img = None
      \<longrightarrow> imageTransformer b = Inl (TypeError ''url'')"
    by (simp add: imageTransformer_def imageUrl_def)
  moreover have "block_image b = Some img \<and> image_type img \<noteq> Some ''file'' \<and> image_external img = None
      \<longrightarrow> imageTransformer b = Inl (TypeError ''url'')"
    by (simp add: imageTransformer_def imageUrl_def)
  moreover have "missingObject b = (\<exists>err. imageTransformer b = Inl err)"
    using imageTransformer_error [of b] missingObject_error [of b] by blast
  moreover have "\<exists>c' e. c' \<in> set (imageBlocks blocks) \<and> missingObject c' \<and>
         imageTransformer c' = Inl e \<and>
         pageToMarkdown h (page_ident p) = Inl e \<and>
         processPage h (length before) p = ([NotionFetch (page_ident p)], Some e) \<and>
         main h =
           ([NotionQuery (toStr (env_DATABASE_ID h)),
             ConsoleLog (''Converting '' @ decimal (length (before @ p # rest)) @ '' post(s)...''),
             Mkdir ''_posts'']
            @ fst (exportPages h 0 before)
            @ [NotionFetch (page_ident p), ConsoleError ''Export failed:'' e], 1)"
    if env: "truthy (env_DATABASE_ID h)" "truthy (env_NOTION_TOKEN h)"
      and query: "databases_query h (toStr (env_DATABASE_ID h)) = Inr (before @ p # rest)"
      and dir: "mkdirSync h ''_posts'' = None"
      and earlier: "snd (exportPages h 0 before) = None"
      and tree: "blocks_children_list h (page_ident p) = Inr blocks"
      and bad: "c \<in> set (imageBlocks blocks)" "missingObject c"
  proof -
    from conversion_aborts [OF tree bad] obtain c' e where
      c': "c' \<in> set (imageBlocks blocks)" "missingObject c'" "imageTransformer c' = Inl e"
      and conv: "pageToMarkdown h (page_ident p) = Inl e"
      by blast
    from processPage_conversion_error [OF conv] main_aborts [OF env query dir earlier conv] c' conv
    show ?thesis by blast
  qed
  ultimately show ?thesis by blast
qed

theorem imageTransformer_raises_on_missing_object_witness:
  \<open>imageTransformer
     \<lparr>block_id = ''b5'',
      block_image = Some \<lparr>image_type = Some ''file'', image_file = None, image_external = None\<rparr>\<rparr>
     = Inl (TypeError ''url'') \<and>
   imageTransformer
     \<lparr>block_id = ''b6'',
      block_image = Some \<lparr>image_type = Some ''video'', image_file = None, image_external = None\<rparr>\<rparr>
     = Inl (TypeError ''url'') \<and>
   imageTransformer \<lparr>block_id = ''b7'', block_image = None\<rparr> = Inl (TypeError ''type'') \<and>
   imageBlocks (exampleBlocks ''bad0-bad0'') =
     [\<lparr>block_id = ''b5'',
       block_image = Some \<lparr>image_type = Some ''file'', image_file = None, image_external = None\<rparr>\<rparr>] \<and>
   main (exampleHost\<lparr>databases_query := (\<lambda>d. Inr [examplePost, exampleBroken, examplePage])\<rparr>) =
     ([NotionQuery ''db1'',
       ConsoleLog ''Converting 3 post(s)...'',
       Mkdir ''_posts'',
       NotionFetch ''9f00-aa11'',
       WriteFile ''_posts/2024-01-01-hello.md''
         ''---\<newline>title: "Hello"\<newline>date: 2024-01-01\<newline>categories: ["notes"]\<newline>tags: ["a", "b"]\<newline>description: ""\<newline>permalink: /posts/hello\<newline>math: true\<newline>image:\<newline>  path: "http://x.org/t.png"\<newline>  alt: "preview image"\<newline>---\<newline>\<newline>## Title\<newline>'',
       ConsoleLog ''Generated: 2024-01-01-hello.md'',
       NotionFetch ''bad0-bad0'',
       ConsoleError ''Export failed:'' (TypeError ''url'')], 1)\<close>
proof -
  let ?h = "exampleHost\<lparr>databases_query := (\<lambda>d. Inr [examplePost, exampleBroken, examplePage])\<rparr>"
  let ?img5 = "\<lparr>image_type = Some ''file'', image_file = None, image_external = None\<rparr>"
  let ?img6 = "\<lparr>image_type = Some ''video'', image_file = None, image_external = None\<rparr>"
  let ?c = "\<lparr>block_id = ''b5'', block_image = Some ?img5\<rparr>"
  note fact = imageTransformer_raises_on_missing_object
  have a: "imageTransformer ?c = Inl (TypeError ''url'')"
    using fact [of ?c ?img5 ?h "[]" exampleBroken "[]" "[]" ?c] by simp
  have b: "imageTransformer \<lparr>block_id = ''b6'', block_image = Some ?img6\<rparr> = Inl (TypeError ''url'')"
    using fact [of "\<lparr>block_id = ''b6'', block_image = Some ?img6\<rparr>" ?img6 ?h "[]" exampleBroken "[]" "[]" ?c]
    by simp
  have c: "imageTransformer \<lparr>block_id = ''b7'', block_image = None\<rparr> = Inl (TypeError ''type'')"
    using fact [of "\<lparr>block_id = ''b7'', block_image = None\<rparr>" ?img6 ?h "[]" exampleBroken "[]" "[]" ?c]
    by simp
  have blocks: "imageBlocks (exampleBlocks ''bad0-bad0'') = [?c]"
    by (simp add: exampleBlocks_def)
  have env: "truthy (env_DATABASE_ID ?h)" "truthy (env_NOTION_TOKEN ?h)"
    "toStr (env_DATABASE_ID ?h) = ''db1''"
    by (simp_all add: exampleHost_def truthy_def toStr_def)
  have query: "databases_query ?h (toStr (env_DATABASE_ID ?h)) = Inr ([examplePost] @ exampleBroken # [examplePage])"
    by simp
  have dir: "mkdirSync ?h ''_posts'' = None"
    by (simp add: exampleHost_def)
  have earlier: \<open>exportPages ?h 0 [examplePost] =
     ([NotionFetch ''9f00-aa11'',
       WriteFile ''_posts/2024-01-01-hello.md''
         ''---\<newline>title: "Hello"\<newline>date: 2024-01-01\<newline>categories: ["notes"]\<newline>tags: ["a", "b"]\<newline>description: ""\<newline>permalink: /posts/hello\<newline>math: true\<newline>image:\<newline>  path: "http://x.org/t.png"\<newline>  alt: "preview image"\<newline>---\<newline>\<newline>## Title\<newline>'',
       ConsoleLog ''Generated: 2024-01-01-hello.md''], None)\<close>
    by (simp add: ex_process1)
  have tree: "blocks_children_list ?h (page_ident exampleBroken) = Inr (exampleBlocks ''bad0-bad0'')"
    by (simp add: exampleHost_def exampleBroken_def)
  have missing: "missingObject ?c"
    by (simp add: missingObject_def)
  from fact [of ?c ?img5 ?h "[examplePost]" exampleBroken "[examplePage]" "exampleBlocks ''bad0-bad0''" ?c]
    env(1,2) query dir earlier tree blocks missing
  obtain c' e where "c' \<in> set (imageBlocks (exampleBlocks ''bad0-bad0''))"
    and "imageTransformer c' = Inl e"
    and run: "main ?h =
           ([NotionQuery (toStr (env_DATABASE_ID ?h)),
             ConsoleLog (''Converting '' @ decimal (length ([examplePost] @ exampleBroken # [examplePage])) @ '' post(s)...''),
             Mkdir ''_posts'']
            @ fst (exportPages ?h 0 [examplePost])
            @ [NotionFetch (page_ident exampleBroken), ConsoleError ''Export failed:'' e], 1)"
    by auto
  with blocks a have "e = TypeError ''url''" by simp
  with run env(3) earlier have \<open>main ?h =
     ([NotionQuery ''db1'',
       ConsoleLog ''Converting 3 post(s)...'',
       Mkdir ''_posts'',
       NotionFetch ''9f00-aa11'',
       WriteFile ''_posts/2024-01-01-hello.md''
         ''---\<newline>title: "Hello"\<newline>date: 2024-01-01\<newline>categories: ["notes"]\<newline>tags: ["a", "b"]\<newline>description: ""\<newline>permalink: /posts/hello\<newline>math: true\<newline>image:\<newline>  path: "http://x.org/t.png"\<newline>  alt: "preview image"\<newline>---\<newline>\<newline>## Title\<newline>'',
       ConsoleLog ''Generated: 2024-01-01-hello.md'',
       NotionFetch ''bad0-bad0'',
       ConsoleError ''Export failed:'' (TypeError ''url'')], 1)\<close>
    by (simp add: exampleBroken_def)
  with a b c blocks show ?thesis by blast
qed

section \<open>Claims on the front matter\<close>

text \<open>
  C5: the front matter gets the default of each field that the record lacks (the
  properties, the property or a part of its value is missing): the title \<open>Untitled\<close>, the
  record's identifier without its \<open>-\<close> as the slug, the empty description, no \<open>image\<close>
  lines, the category \<open>blog\<close>, the date of the run (\<open>today\<close>), and no tags, which the header
  renders as \<open>tags: [""]\<close>. The header and the file name are given whole, from the values of
  the record, with each default in its place. No property is needed: the record is
  processed with the date the clock gives (\<open>moment_format h i\<close>), and an error of the
  processing is an error of the conversion or of the write, whatever the properties are.
\<close>

theorem frontmatter_defaults:
  fixes p :: page and today :: string and h :: host and i :: nat
  defines "titleText \<equiv> properties p \<bind> prop_title \<bind> title_runs \<bind> first \<bind> plain_text"
    and "slugText \<equiv> properties p \<bind> prop_page_id \<bind> rich_text \<bind> first \<bind> plain_text"
    and "descriptionText \<equiv>
           properties p \<bind> prop_description \<bind> rich_text \<bind> first \<bind> plain_text"
    and "thumbnailText \<equiv>
           properties p \<bind> prop_thumbnail_url \<bind> rich_text \<bind> first \<bind> plain_text"
    and "categoryName \<equiv> properties p \<bind> prop_category \<bind> select \<bind> name"
    and "dateStart \<equiv> properties p \<bind> prop_date \<bind> date_range \<bind> start"
    and "tagOptions \<equiv> properties p \<bind> prop_tags \<bind> multi_select"
  shows \<open>(titleText = None \<longrightarrow>
      title p = ''Untitled'' \<and> sublist ''\<newline>title: "Untitled"\<newline>'' (frontmatter p today)) \<and>
   (slugText = None \<longrightarrow> pageId p = filter (\<lambda>c. c \<noteq> CHR ''-'') (page_ident p)) \<and>
   (descriptionText = None \<longrightarrow> description p = []) \<and>
   (thumbnailText = None \<longrightarrow> imageFrontmatter p = []) \<and>
   (categoryName = None \<longrightarrow> category p = ''blog'') \<and>
   (dateStart = None \<longrightarrow> date p today = today) \<and>
   (tagOptions = None \<longrightarrow>
      tags p = [] \<and> sublist ''\<newline>tags: [""]\<newline>'' (frontmatter p today)) \<and>
   frontmatter p today =
     ''---\<newline>'' @
     ''title: "'' @
       (case titleText of None \<Rightarrow> ''Untitled''
        | Some v \<Rightarrow> if v = [] then ''Untitled'' else v) @ ''"\<newline>'' @
     ''date: '' @
       (case dateStart of None \<Rightarrow> today | Some v \<Rightarrow> if v = [] then today else v) @ ''\<newline>'' @
     ''categories: ["'' @
       (case categoryName of None \<Rightarrow> ''blog''
        | Some v \<Rightarrow> if v = [] then ''blog'' else v) @ ''"]\<newline>'' @
     ''tags: ["'' @
       (case tagOptions of None \<Rightarrow> [] | Some ts \<Rightarrow> join ''", "'' (map name ts)) @ ''"]\<newline>'' @
     ''description: "'' @
       (case descriptionText of None \<Rightarrow> [] | Some v \<Rightarrow> v) @ ''"\<newline>'' @
     ''permalink: /posts/'' @
       (case slugText of None \<Rightarrow> filter (\<lambda>c. c \<noteq> CHR ''-'') (page_ident p)
        | Some v \<Rightarrow> if v = [] then filter (\<lambda>c. c \<noteq> CHR ''-'') (page_ident p) else v) @
       ''\<newline>'' @
     ''math: true\<newline>'' @
     (case thumbnailText of None \<Rightarrow> []
      | Some v \<Rightarrow>
          if v = [] then []
          else ''image:\<newline>  path: "'' @ v @ ''"\<newline>  alt: "preview image"\<newline>'') @
     ''---\<newline>\<newline>'' \<and>
   filename p today =
     (case dateStart of None \<Rightarrow> today | Some v \<Rightarrow> if v = [] then today else v) @ ''-'' @
     (case slugText of None \<Rightarrow> filter (\<lambda>c. c \<noteq> CHR ''-'') (page_ident p)
      | Some v \<Rightarrow> if v = [] then filter (\<lambda>c. c \<noteq> CHR ''-'') (page_ident p) else v) @
     ''.md'' \<and>
   (pageToMarkdown h (page_ident p) = Inr bs \<and>
    writeFileSync h (path_join h ''_posts'' (filename p (moment_format h i)))
      (frontmatter p (moment_format h i) @ toStr (toMarkdownString h (shiftHeadings bs))) = None
    \<longrightarrow>
    processPage h i p =
      ([NotionFetch (page_ident p),
        WriteFile (path_join h ''_posts'' (filename p (moment_format h i)))
          (frontmatter p (moment_format h i) @ toStr (toMarkdownString h (shiftHeadings bs))),
        ConsoleLog (''Generated: '' @ filename p (moment_format h i))],
       None)) \<and>
   (snd (processPage h i p) = Some e \<longrightarrow>
      pageToMarkdown h (page_ident p) = Inl e \<or>
      (\<exists>bs. pageToMarkdown h (page_ident p) = Inr bs \<and>
         writeFileSync h (path_join h ''_posts'' (filename p (moment_format h i)))
           (frontmatter p (moment_format h i) @ toStr (toMarkdownString h (shiftHeadings bs)))
           = Some e))\<close>
proof -
  have t: "titleText = None \<longrightarrow> title p = ''Untitled''"
    by (simp add: titleText_def title_def orElse_def)
  have s: "slugText = None \<longrightarrow> pageId p = filter (\<lambda>c. c \<noteq> CHR ''-'') (page_ident p)"
    by (simp add: slugText_def pageId_def orElse_def)
  have d: "descriptionText = None \<longrightarrow> description p = []"
    by (simp add: descriptionText_def description_def orElse_def)
  have u: "thumbnailText = None \<longrightarrow> imageFrontmatter p = []"
    by (simp add: thumbnailText_def imageFrontmatter_def thumbnailUrl_def truthy_def)
  have c: "categoryName = None \<longrightarrow> category p = ''blog''"
    by (simp add: categoryName_def category_def orElse_def)
  have w: "dateStart = None \<longrightarrow> date p today = today"
    by (simp add: dateStart_def date_def orElse_def)
  have g: "tagOptions = None \<longrightarrow> tags p = []"
    by (simp add: tagOptions_def tags_def)
  have same: "(case titleText of None \<Rightarrow> ''Untitled''
        | Some v \<Rightarrow> if v = [] then ''Untitled'' else v) = title p"
    "(case dateStart of None \<Rightarrow> today | Some v \<Rightarrow> if v = [] then today else v) = date p today"
    "(case categoryName of None \<Rightarrow> ''blog''
        | Some v \<Rightarrow> if v = [] then ''blog'' else v) = category p"
    "(case tagOptions of None \<Rightarrow> [] | Some ts \<Rightarrow> join sep (map name ts)) = join sep (tags p)"
    "(case descriptionText of None \<Rightarrow> [] | Some v \<Rightarrow> v) = description p"
    "(case slugText of None \<Rightarrow> filter (\<lambda>c. c \<noteq> CHR ''-'') (page_ident p)
        | Some v \<Rightarrow> if v = [] then filter (\<lambda>c. c \<noteq> CHR ''-'') (page_ident p) else v) = pageId p"
    for sep
    by (simp_all add: titleText_def dateStart_def categoryName_def tagOptions_def
        descriptionText_def slugText_def title_def date_def category_def tags_def
        description_def pageId_def orElse_def split: option.split)
  have image: \<open>(case thumbnailText of None \<Rightarrow> []
      | Some v \<Rightarrow>
          if v = [] then []
          else ''image:\<newline>  path: "'' @ v @ ''"\<newline>  alt: "preview image"\<newline>'')
      = imageFrontmatter p\<close>
    by (simp add: thumbnailText_def imageFrontmatter_def thumbnailUrl_def truthy_def toStr_def
        split: option.split)
  have header: \<open>frontmatter p today =
     ''---\<newline>'' @
     ''title: "'' @
       (case titleText of None \<Rightarrow> ''Untitled''
        | Some v \<Rightarrow> if v = [] then ''Untitled'' else v) @ ''"\<newline>'' @
     ''date: '' @
       (case dateStart of None \<Rightarrow> today | Some v \<Rightarrow> if v = [] then today else v) @ ''\<newline>'' @
     ''categories: ["'' @
       (case categoryName of None \<Rightarrow> ''blog''
        | Some v \<Rightarrow> if v = [] then ''blog'' else v) @ ''"]\<newline>'' @
     ''tags: ["'' @
       (case tagOptions of None \<Rightarrow> [] | Some ts \<Rightarrow> join ''", "'' (map name ts)) @ ''"]\<newline>'' @
     ''description: "'' @
       (case descriptionText of None \<Rightarrow> [] | Some v \<Rightarrow> v) @ ''"\<newline>'' @
     ''permalink: /posts/'' @
       (case slugText of None \<Rightarrow> filter (\<lambda>c. c \<noteq> CHR ''-'') (page_ident p)
        | Some v \<Rightarrow> if v = [] then filter (\<lambda>c. c \<noteq> CHR ''-'') (page_ident p) else v) @
       ''\<newline>'' @
     ''math: true\<newline>'' @
     (case thumbnailText of None \<Rightarrow> []
      | Some v \<Rightarrow>
          if v = [] then []
          else ''image:\<newline>  path: "'' @ v @ ''"\<newline>  alt: "preview image"\<newline>'') @
     ''---\<newline>\<newline>''\<close>
    unfolding same image by (simp add: frontmatter_def)
  have fname: "filename p today =
     (case dateStart of None \<Rightarrow> today | Some v \<Rightarrow> if v = [] then today else v) @ ''-'' @
     (case slugText of None \<Rightarrow> filter (\<lambda>c. c \<noteq> CHR ''-'') (page_ident p)
      | Some v \<Rightarrow> if v = [] then filter (\<lambda>c. c \<noteq> CHR ''-'') (page_ident p) else v) @
     ''.md''"
    unfolding same by (simp add: filename_def)
  from t frontmatter_title_line [of p today]
  have t': \<open>titleText = None \<longrightarrow>
      title p = ''Untitled'' \<and> sublist ''\<newline>title: "Untitled"\<newline>'' (frontmatter p today)\<close>
    by blast
  from g sub_tags [of p today]
  have g': \<open>tagOptions = None \<longrightarrow>
      tags p = [] \<and> sublist ''\<newline>tags: [""]\<newline>'' (frontmatter p today)\<close>
    by blast
  from t' s d u c w g' header fname processPage_ok [of h p bs i] processPage_error [of h i p e]
  show ?thesis by blast
qed

theorem frontmatter_defaults_witness:
  \<open>properties examplePage = None \<and>
   title examplePage = ''Untitled'' \<and>
   pageId examplePage = ''12ab34cd56ef'' \<and>
   description examplePage = [] \<and>
   imageFrontmatter examplePage = [] \<and>
   category examplePage = ''blog'' \<and>
   date examplePage ''2024-05-06'' = ''2024-05-06'' \<and>
   tags examplePage = [] \<and>
   frontmatter examplePage ''2024-05-06'' =
     ''---\<newline>title: "Untitled"\<newline>date: 2024-05-06\<newline>categories: ["blog"]\<newline>tags: [""]\<newline>description: ""\<newline>permalink: /posts/12ab34cd56ef\<newline>math: true\<newline>---\<newline>\<newline>'' \<and>
   filename examplePage ''2024-05-06'' = ''2024-05-06-12ab34cd56ef.md'' \<and>
   frontmatter examplePost ''2024-05-06'' =
     ''---\<newline>title: "Hello"\<newline>date: 2024-01-01\<newline>categories: ["notes"]\<newline>tags: ["a", "b"]\<newline>description: ""\<newline>permalink: /posts/hello\<newline>math: true\<newline>image:\<newline>  path: "http://x.org/t.png"\<newline>  alt: "preview image"\<newline>---\<newline>\<newline>'' \<and>
   processPage exampleHost 1 examplePage =
     ([NotionFetch ''12ab-34cd-56ef'',
       WriteFile ''_posts/2024-05-06-12ab34cd56ef.md''
         ''---\<newline>title: "Untitled"\<newline>date: 2024-05-06\<newline>categories: ["blog"]\<newline>tags: [""]\<newline>description: ""\<newline>permalink: /posts/12ab34cd56ef\<newline>math: true\<newline>---\<newline>\<newline>Some text.\<newline>'',
       ConsoleLog ''Generated: 2024-05-06-12ab34cd56ef.md''], None)\<close>
proof -
  have absent: "properties examplePage = None" "page_ident examplePage = ''12ab-34cd-56ef''"
    by (simp_all add: examplePage_def)
  have host: "moment_format exampleHost 1 = ''2024-05-06''"
    "path_join exampleHost = (\<lambda>a b. a @ ''/'' @ b)"
    "writeFileSync exampleHost = (\<lambda>path content. None)"
    "toMarkdownString exampleHost =
       (\<lambda>bs. if bs = [] then None else Some (concat (map (\<lambda>b. parent b @ ''\<newline>'') bs)))"
    by (simp_all add: exampleHost_def)
  have conv: "pageToMarkdown exampleHost ''12ab-34cd-56ef''
      = Inr [MdBlock ''paragraph'' ''b2'' ''Some text.'' (Some [])]"
    by (simp add: pageToMarkdown_def exampleHost_def exampleBlocks_def)
  note none = frontmatter_defaults
    [of examplePage "''2024-05-06''" exampleHost "[MdBlock ''paragraph'' ''b2'' ''Some text.'' (Some [])]" 1]
  from none absent have vals: "title examplePage = ''Untitled''"
    "pageId examplePage = ''12ab34cd56ef''"
    "description examplePage = []"
    "imageFrontmatter examplePage = []"
    "category examplePage = ''blog''"
    "date examplePage ''2024-05-06'' = ''2024-05-06''"
    "tags examplePage = []"
    by simp_all
  from none absent have header: \<open>frontmatter examplePage ''2024-05-06'' =
     ''---\<newline>title: "Untitled"\<newline>date: 2024-05-06\<newline>categories: ["blog"]\<newline>tags: [""]\<newline>description: ""\<newline>permalink: /posts/12ab34cd56ef\<newline>math: true\<newline>---\<newline>\<newline>''\<close>
    by simp
  from none absent have fname: "filename examplePage ''2024-05-06'' = ''2024-05-06-12ab34cd56ef.md''"
    by simp
  from frontmatter_defaults [of examplePost "''2024-05-06''" exampleHost "[]" 0]
  have post: \<open>frontmatter examplePost ''2024-05-06'' =
     ''---\<newline>title: "Hello"\<newline>date: 2024-01-01\<newline>categories: ["notes"]\<newline>tags: ["a", "b"]\<newline>description: ""\<newline>permalink: /posts/hello\<newline>math: true\<newline>image:\<newline>  path: "http://x.org/t.png"\<newline>  alt: "preview image"\<newline>---\<newline>\<newline>''\<close>
    by (simp add: examplePost_def first_def)
  from none conv host absent header fname
  have \<open>processPage exampleHost 1 examplePage =
     ([NotionFetch ''12ab-34cd-56ef'',
       WriteFile ''_posts/2024-05-06-12ab34cd56ef.md''
         ''---\<newline>title: "Untitled"\<newline>date: 2024-05-06\<newline>categories: ["blog"]\<newline>tags: [""]\<newline>description: ""\<newline>permalink: /posts/12ab34cd56ef\<newline>math: true\<newline>---\<newline>\<newline>Some text.\<newline>'',
       ConsoleLog ''Generated: 2024-05-06-12ab34cd56ef.md''], None)\<close>
    by (simp add: toStr_def)
  with absent(1) vals header fname post show ?thesis by blast
qed

text \<open>
  C9: a value that is there but empty gets the default too, as \<open>||\<close> and \<open>?:\<close> test for a
  falsy value: a title, slug or description whose list of runs is empty or whose first
  run has the empty text, a thumbnail or category with the empty text, and a date whose
  \<open>start\<close> is the empty string, give what the record without properties gives.
\<close>

theorem empty_value_defaults:
  "(properties p \<bind> prop_title \<bind> title_runs = Some [] \<longrightarrow> title p = ''Untitled'') \<and>
   (properties p \<bind> prop_title \<bind> title_runs = Some (r # rs) \<and> plain_text r = Some []
      \<longrightarrow> title p = ''Untitled'') \<and>
   (properties p \<bind> prop_page_id \<bind> rich_text = Some [] \<longrightarrow>
      pageId p = filter (\<lambda>c. c \<noteq> CHR ''-'') (page_ident p)) \<and>
   (properties p \<bind> prop_page_id \<bind> rich_text = Some (r # rs) \<and> plain_text r = Some []
      \<longrightarrow> pageId p = filter (\<lambda>c. c \<noteq> CHR ''-'') (page_ident p)) \<and>
   (properties p \<bind> prop_description \<bind> rich_text = Some [] \<longrightarrow> description p = []) \<and>
   (properties p \<bind> prop_description \<bind> rich_text = Some (r # rs) \<and> plain_text r = Some []
      \<longrightarrow> description p = []) \<and>
   (properties p \<bind> prop_thumbnail_url \<bind> rich_text = Some (r # rs) \<and> plain_text r = Some []
      \<longrightarrow> imageFrontmatter p = []) \<and>
   (properties p \<bind> prop_category \<bind> select \<bind> name = Some [] \<longrightarrow> category p = ''blog'') \<and>
   (properties p \<bind> prop_date \<bind> date_range \<bind> start = Some [] \<longrightarrow> date p today = today) \<and>
   title (p\<lparr>properties := None\<rparr>) = ''Untitled'' \<and>
   pageId (p\<lparr>properties := None\<rparr>) = filter (\<lambda>c. c \<noteq> CHR ''-'') (page_ident p) \<and>
   description (p\<lparr>properties := None\<rparr>) = [] \<and>
   imageFrontmatter (p\<lparr>properties := None\<rparr>) = [] \<and>
   category (p\<lparr>properties := None\<rparr>) = ''blog'' \<and>
   date (p\<lparr>properties := None\<rparr>) today = today"
proof -
  have "properties p \<bind> prop_title \<bind> title_runs = Some [] \<longrightarrow> title p = ''Untitled''"
    and "properties p \<bind> prop_title \<bind> title_runs = Some (r # rs) \<and> plain_text r = Some []
      \<longrightarrow> title p = ''Untitled''"
    and "title (p\<lparr>properties := None\<rparr>) = ''Untitled''"
    by (simp_all add: title_def orElse_def first_def)
  moreover have "properties p \<bind> prop_page_id \<bind> rich_text = Some [] \<longrightarrow>
      pageId p = filter (\<lambda>c. c \<noteq> CHR ''-'') (page_ident p)"
    and "properties p \<bind> prop_page_id \<bind> rich_text = Some (r # rs) \<and> plain_text r = Some []
      \<longrightarrow> pageId p = filter (\<lambda>c. c \<noteq> CHR ''-'') (page_ident p)"
    and "pageId (p\<lparr>properties := None\<rparr>) = filter (\<lambda>c. c \<noteq> CHR ''-'') (page_ident p)"
    by (simp_all add: pageId_def orElse_def first_def)
  moreover have "properties p \<bind> prop_description \<bind> rich_text = Some [] \<longrightarrow> description p = []"
    and "properties p \<bind> prop_description \<bind> rich_text = Some (r # rs) \<and> plain_text r = Some []
      \<longrightarrow> description p = []"
    and "description (p\<lparr>properties := None\<rparr>) = []"
    by (simp_all add: description_def orElse_def first_def)
  moreover have "properties p \<bind> prop_thumbnail_url \<bind> rich_text = Some (r # rs) \<and> plain_text r = Some []
      \<longrightarrow> imageFrontmatter p = []"
    and "imageFrontmatter (p\<lparr>properties := None\<rparr>) = []"
    by (simp_all add: imageFrontmatter_def thumbnailUrl_def truthy_def first_def)
  moreover have "properties p \<bind> prop_category \<bind> select \<bind> name = Some [] \<longrightarrow> category p = ''blog''"
    and "category (p\<lparr>properties := None\<rparr>) = ''blog''"
    by (simp_all add: category_def orElse_def)
  moreover have "properties p \<bind> prop_date \<bind> date_range \<bind> start = Some [] \<longrightarrow> date p today = today"
    and "date (p\<lparr>properties := None\<rparr>) today = today"
    by (simp_all add: date_def orElse_def)
  ultimately show ?thesis by blast
qed

theorem empty_value_defaults_witness:
  "properties exampleEmpty \<bind> prop_title \<bind> title_runs = Some [] \<and>
   properties exampleEmpty \<bind> prop_date \<bind> date_range \<bind> start = Some [] \<and>
   title exampleEmpty = ''Untitled'' \<and>
   pageId exampleEmpty = ''77aa88'' \<and>
   description exampleEmpty = [] \<and>
   imageFrontmatter exampleEmpty = [] \<and>
   category exampleEmpty = ''blog'' \<and>
   date exampleEmpty ''2024-05-06'' = ''2024-05-06''"
proof -
  have shape: "properties exampleEmpty \<bind> prop_title \<bind> title_runs = Some []"
    "properties exampleEmpty \<bind> prop_page_id \<bind> rich_text = Some [\<lparr>plain_text = Some []\<rparr>]"
    "properties exampleEmpty \<bind> prop_description \<bind> rich_text
       = Some [\<lparr>plain_text = Some []\<rparr>, \<lparr>plain_text = Some ''more''\<rparr>]"
    "properties exampleEmpty \<bind> prop_thumbnail_url \<bind> rich_text = Some [\<lparr>plain_text = Some []\<rparr>]"
    "properties exampleEmpty \<bind> prop_category \<bind> select \<bind> name = Some []"
    "properties exampleEmpty \<bind> prop_date \<bind> date_range \<bind> start = Some []"
    by (simp_all add: exampleEmpty_def)
  have ident: "filter (\<lambda>c. c \<noteq> CHR ''-'') (page_ident exampleEmpty) = ''77aa88''"
    by (simp add: exampleEmpty_def)
  note facts = empty_value_defaults [of exampleEmpty "\<lparr>plain_text = Some []\<rparr>" _ "''2024-05-06''"]
  from facts [of "[]"] shape have "title exampleEmpty = ''Untitled''"
    by simp
  moreover from facts [of "[]"] shape ident have "pageId exampleEmpty = ''77aa88''"
    by simp
  moreover from facts [of "[\<lparr>plain_text = Some ''more''\<rparr>]"] shape
  have "description exampleEmpty = []"
    by simp
  moreover from facts [of "[]"] shape have "imageFrontmatter exampleEmpty = []"
    by simp
  moreover from facts [of "[]"] shape have "category exampleEmpty = ''blog''"
    by simp
  moreover from facts [of "[]"] shape have "date exampleEmpty ''2024-05-06'' = ''2024-05-06''"
    by simp
  ultimately show ?thesis using shape(1) shape(6) by blast
qed

section \<open>Claims on the run\<close>

text \<open>
  C7: when \<open>DATABASE_ID\<close> or \<open>NOTION_TOKEN\<close> is missing (unset, or set to the empty string),
  the run fails with the error \<open>Missing required environment variable: V\<close>, \<open>V\<close> a missing
  variable; printing that error is the run's only effect, so nothing went to the network
  and no directory or file was written, and the exit code is 1.
\<close>

theorem missing_env_fails_first:
  assumes "\<not> truthy (env_DATABASE_ID h) \<or> \<not> truthy (env_NOTION_TOKEN h)"
  shows "\<exists>v. (v = ''DATABASE_ID'' \<and> \<not> truthy (env_DATABASE_ID h) \<or>
              v = ''NOTION_TOKEN'' \<and> \<not> truthy (env_NOTION_TOKEN h)) \<and>
     main h = ([ConsoleError ''Export failed:''
                 (Error (''Missing required environment variable: '' @ v))], 1)"
proof (cases "truthy (env_DATABASE_ID h)")
  case False
  then have "main h = ([ConsoleError ''Export failed:''
                 (Error (''Missing required environment variable: '' @ ''DATABASE_ID''))], 1)"
    by (simp add: main_def run_def)
  with False show ?thesis by blast
next
  case True
  with assms have no_token: "\<not> truthy (env_NOTION_TOKEN h)" by simp
  with True have "main h = ([ConsoleError ''Export failed:''
                 (Error (''Missing required environment variable: '' @ ''NOTION_TOKEN''))], 1)"
    by (simp add: main_def run_def)
  with no_token show ?thesis by blast
qed

theorem missing_env_fails_first_witness:
  "main (exampleHost\<lparr>env_NOTION_TOKEN := None\<rparr>)
     = ([ConsoleError ''Export failed:''
          (Error ''Missing required environment variable: NOTION_TOKEN'')], 1) \<and>
   main (exampleHost\<lparr>env_DATABASE_ID := None\<rparr>)
     = ([ConsoleError ''Export failed:''
          (Error ''Missing required environment variable: DATABASE_ID'')], 1)"
proof -
  have t: "truthy (env_DATABASE_ID exampleHost)" "truthy (env_NOTION_TOKEN exampleHost)"
    by (simp_all add: exampleHost_def truthy_def)
  have n: "\<not> truthy None" by (simp add: truthy_def)
  from missing_env_fails_first [of "exampleHost\<lparr>env_NOTION_TOKEN := None\<rparr>"] t n
  have a: "main (exampleHost\<lparr>env_NOTION_TOKEN := None\<rparr>)
     = ([ConsoleError ''Export failed:''
          (Error ''Missing required environment variable: NOTION_TOKEN'')], 1)"
    by auto
  from missing_env_fails_first [of "exampleHost\<lparr>env_DATABASE_ID := None\<rparr>"] t n
  have b: "main (exampleHost\<lparr>env_DATABASE_ID := None\<rparr>)
     = ([ConsoleError ''Export failed:''
          (Error ''Missing required environment variable: DATABASE_ID'')], 1)"
    by auto
  from a b show ?thesis by (rule conjI)
qed

text \<open>
  C8: the claim says that the file of a record holds the front matter followed by the
  markdown body. For a published record whose page has no blocks the conversion returns
  the empty list, the object \<open>toMarkdownString\<close> returns has no \<open>parent\<close>, and line 143,
  \<open>frontmatter + mdString.parent\<close>, writes the front matter followed by the text
  \<open>undefined\<close>: the one value of the file that is not given a default before it is written.
\<close>

theorem empty_page_body_undefined:
  \<open>pageToMarkdown (exampleHost\<lparr>databases_query := (\<lambda>d. Inr [exampleBlank])\<rparr>) ''00ff-00ff'' = Inr [] \<and>
   main (exampleHost\<lparr>databases_query := (\<lambda>d. Inr [exampleBlank])\<rparr>) =
     ([NotionQuery ''db1'',
       ConsoleLog ''Converting 1 post(s)...'',
       Mkdir ''_posts'',
       NotionFetch ''00ff-00ff'',
       WriteFile ''_posts/2024-05-06-00ff00ff.md''
         ''---\<newline>title: "Untitled"\<newline>date: 2024-05-06\<newline>categories: ["blog"]\<newline>tags: [""]\<newline>description: ""\<newline>permalink: /posts/00ff00ff\<newline>math: true\<newline>---\<newline>\<newline>undefined'',
       ConsoleLog ''Generated: 2024-05-06-00ff00ff.md''], 0)\<close>
proof -
  let ?h = "exampleHost\<lparr>databases_query := (\<lambda>d. Inr [exampleBlank])\<rparr>"
  have conv: "pageToMarkdown ?h ''00ff-00ff'' = Inr []"
    by (simp add: pageToMarkdown_def exampleHost_def exampleBlocks_def)
  have host: "moment_format exampleHost 0 = ''2024-05-06''"
    "path_join exampleHost = (\<lambda>a b. a @ ''/'' @ b)"
    "writeFileSync exampleHost = (\<lambda>path content. None)"
    "mkdirSync exampleHost = (\<lambda>d. None)"
    "toMarkdownString exampleHost [] = None"
    "env_DATABASE_ID exampleHost = Some ''db1''"
    "env_NOTION_TOKEN exampleHost = Some ''secret''"
    by (simp_all add: exampleHost_def)
  have page: "page_ident exampleBlank = ''00ff-00ff''"
    \<open>frontmatter exampleBlank ''2024-05-06'' = ''---\<newline>title: "Untitled"\<newline>date: 2024-05-06\<newline>categories: ["blog"]\<newline>tags: [""]\<newline>description: ""\<newline>permalink: /posts/00ff00ff\<newline>math: true\<newline>---\<newline>\<newline>''\<close>
    "filename exampleBlank ''2024-05-06'' = ''2024-05-06-00ff00ff.md''"
    by (simp_all add: exampleBlank_def frontmatter_def filename_def title_def date_def
        category_def tags_def description_def pageId_def imageFrontmatter_def thumbnailUrl_def
        orElse_def truthy_def)
  have \<open>processPage ?h 0 exampleBlank =
     ([NotionFetch ''00ff-00ff'',
       WriteFile ''_posts/2024-05-06-00ff00ff.md''
         ''---\<newline>title: "Untitled"\<newline>date: 2024-05-06\<newline>categories: ["blog"]\<newline>tags: [""]\<newline>description: ""\<newline>permalink: /posts/00ff00ff\<newline>math: true\<newline>---\<newline>\<newline>undefined'',
       ConsoleLog ''Generated: 2024-05-06-00ff00ff.md''], None)\<close>
    by (simp add: processPage_def Let_def page conv host toStr_def)
  then have \<open>main ?h =
     ([NotionQuery ''db1'',
       ConsoleLog ''Converting 1 post(s)...'',
       Mkdir ''_posts'',
       NotionFetch ''00ff-00ff'',
       WriteFile ''_posts/2024-05-06-00ff00ff.md''
         ''---\<newline>title: "Untitled"\<newline>date: 2024-05-06\<newline>categories: ["blog"]\<newline>tags: [""]\<newline>description: ""\<newline>permalink: /posts/00ff00ff\<newline>math: true\<newline>---\<newline>\<newline>undefined'',
       ConsoleLog ''Generated: 2024-05-06-00ff00ff.md''], 0)\<close>
    by (simp add: main_def run_def Let_def host truthy_def toStr_def)
  with conv show ?thesis by blast
qed

end
